theory Spec2Isabelle
  imports Main "HOL-Library.Word" "HOL-Library.Multiset"
begin

section \<open>Strings of the Go standard library\<close>

text \<open>
  A Go \<^verbatim>\<open>string\<close> is a sequence of bytes; it is modelled as a \<^typ>\<open>string\<close>
  (a list of 8-bit characters). The characters that cannot stand in a string literal
  are named here.
\<close>

abbreviation squote :: char where "squote \<equiv> CHR 0x27"
abbreviation dquote :: char where "dquote \<equiv> CHR 0x22"
abbreviation backslash :: char where "backslash \<equiv> CHR 0x5C"
abbreviation backquote :: char where "backquote \<equiv> CHR 0x60"
abbreviation LF :: char where "LF \<equiv> CHR 0x0A"
abbreviation CR :: char where "CR \<equiv> CHR 0x0D"
abbreviation TAB :: char where "TAB \<equiv> CHR 0x09"

text \<open>\<^verbatim>\<open>strings.HasPrefix\<close>: \<^verbatim>\<open>len(s) >= len(prefix) && s[:len(prefix)] == prefix\<close>.\<close>

definition HasPrefix :: "string \<Rightarrow> string \<Rightarrow> bool" where
  "HasPrefix s prefix = (length prefix \<le> length s \<and> take (length prefix) s = prefix)"

text \<open>\<^verbatim>\<open>strings.TrimPrefix\<close>: \<^verbatim>\<open>s[len(prefix):]\<close> when \<^verbatim>\<open>s\<close> has the prefix, else \<^verbatim>\<open>s\<close>.\<close>

definition TrimPrefix :: "string \<Rightarrow> string \<Rightarrow> string" where
  "TrimPrefix s prefix = (if HasPrefix s prefix then drop (length prefix) s else s)"

text \<open>
  \<^verbatim>\<open>strings.ReplaceAll(s, old, new)\<close> for a non-empty \<^verbatim>\<open>old\<close>: the non-overlapping
  occurrences of \<^verbatim>\<open>old\<close> are replaced from left to right. Every call of the program
  passes a one-byte literal as \<^verbatim>\<open>old\<close>; the result for the empty pattern (where Go
  inserts \<^verbatim>\<open>new\<close> at every rune boundary) is left unspecified.
\<close>

function ReplaceAll :: "string \<Rightarrow> string \<Rightarrow> string \<Rightarrow> string" where
  "ReplaceAll [] (k # ks) new = []"
| "ReplaceAll (c # cs) (k # ks) new =
     (if HasPrefix (c # cs) (k # ks)
      then new @ ReplaceAll (drop (length (k # ks)) (c # cs)) (k # ks) new
      else c # ReplaceAll cs (k # ks) new)"
| "ReplaceAll s [] new = undefined"
  by pat_completeness auto
termination
  by (relation "measure (\<lambda>(s, old, new). length s)") auto

text \<open>
  \<^verbatim>\<open>strings.ToLower\<close>: a string of ASCII bytes only has its letters \<^verbatim>\<open>A\<close> to \<^verbatim>\<open>Z\<close>
  shifted to lower case. Any other string goes through \<^verbatim>\<open>strings.Map(unicode.ToLower, s)\<close>,
  which reads the Unicode case tables; that mapping is the parameter \<open>unicodeLower\<close>.
\<close>

definition asciiLower :: "char \<Rightarrow> char" where
  "asciiLower c =
     (if of_char c \<ge> (0x41 :: nat) \<and> of_char c \<le> (0x5A :: nat)
      then char_of (of_char c + (0x20 :: nat)) else c)"

definition isASCII :: "string \<Rightarrow> bool" where
  "isASCII s = list_all (\<lambda>c. of_char c < (0x80 :: nat)) s"

definition ToLower :: "(string \<Rightarrow> string) \<Rightarrow> string \<Rightarrow> string" where
  "ToLower unicodeLower s = (if isASCII s then map asciiLower s else unicodeLower s)"

section \<open>The curl renderer's quoting\<close>

text \<open>
  The closure \<^verbatim>\<open>escape\<close> of \<^verbatim>\<open>writeCurlCommand\<close>:
  \<^verbatim>\<open>strings.ReplaceAll(s, "'", `'"'"'`)\<close>.
\<close>

definition escape :: "string \<Rightarrow> string" where
  "escape s = ReplaceAll s [squote] [squote, dquote, squote, dquote, squote]"

section \<open>The data model\<close>

text \<open>\<^verbatim>\<open>sql.NullString\<close>: a string and the flag that says it is present.\<close>

record NullString =
  String :: string
  Valid :: bool

text \<open>
  \<^verbatim>\<open>time.Time\<close>, seen through the civil fields that \<^verbatim>\<open>Format\<close> reads (in the
  value's own location).
\<close>

record Time =
  Year :: int
  Month :: nat
  Day :: nat
  Hour :: nat
  Minute :: nat
  Second :: nat

text \<open>
  The fields of \<^verbatim>\<open>Request\<close> that \<^verbatim>\<open>export.go\<close> reads or assigns. The struct is
  declared in another file of the repository; its methods \<^verbatim>\<open>Ident\<close>, \<^verbatim>\<open>Url\<close> and
  \<^verbatim>\<open>IsChat\<close> are parameters of the model (see \<open>externals\<close> below).
\<close>

record Request =
  RequestMethod :: string
  RequestPath :: string
  RequestHeader :: NullString
  RequestBody :: NullString
  MoonshotUID :: NullString
  CreatedAt :: Time
  Category :: string
  Tags :: "string list"

text \<open>Go errors that the program tells apart or that its libraries return.\<close>

datatype error = ErrNoRows | EOF | ProtocolError string | Wrapped string error | OtherError string

text \<open>\<^verbatim>\<open>errors.Is(err, sql.ErrNoRows)\<close>: the chain of wrapped errors holds the sentinel.\<close>

fun isErrNoRows :: "error \<Rightarrow> bool" where
  "isErrNoRows ErrNoRows = True"
| "isErrNoRows (Wrapped msg err) = isErrNoRows err"
| "isErrNoRows err = False"

text \<open>
  \<^verbatim>\<open>textproto.MIMEHeader\<close> is \<^verbatim>\<open>map[string][]string\<close>. The entries are kept as an
  association list, since \<^verbatim>\<open>range\<close> visits them one after the other; the order in
  which Go visits a map is not specified, and is the parameter \<open>rangeOrder\<close> below.
\<close>

type_synonym MIMEHeader = "(string \<times> string list) list"

text \<open>
  What \<^verbatim>\<open>export.go\<close> calls and this repository's \<^verbatim>\<open>src\<close> does not hold:
  the methods of \<^verbatim>\<open>Request\<close>, \<^verbatim>\<open>ReadMIMEHeader\<close> of \<^verbatim>\<open>net/textproto\<close> (its
  header and its error, both returned together), the order in which \<^verbatim>\<open>range\<close> visits
  a map, and the Unicode branch of \<^verbatim>\<open>strings.ToLower\<close>.
\<close>

record externals =
  Ident :: "Request \<Rightarrow> string"
  Url :: "Request \<Rightarrow> string"
  IsChat :: "Request \<Rightarrow> bool"
  ReadMIMEHeader :: "string \<Rightarrow> MIMEHeader \<times> error option"
  rangeOrder :: "MIMEHeader \<Rightarrow> MIMEHeader"
  unicodeLower :: "string \<Rightarrow> string"

section \<open>Header keys\<close>

text \<open>
  \<^verbatim>\<open>validHeaderFieldByte\<close> of \<^verbatim>\<open>net/textproto\<close>: the \<^verbatim>\<open>tchar\<close> of RFC 7230
  (letters, digits and fifteen marks).
\<close>

definition isUpper :: "char \<Rightarrow> bool" where
  "isUpper c = ((0x41 :: nat) \<le> of_char c \<and> of_char c \<le> (0x5A :: nat))"

definition isLower :: "char \<Rightarrow> bool" where
  "isLower c = ((0x61 :: nat) \<le> of_char c \<and> of_char c \<le> (0x7A :: nat))"

definition isDigit :: "char \<Rightarrow> bool" where
  "isDigit c = ((0x30 :: nat) \<le> of_char c \<and> of_char c \<le> (0x39 :: nat))"

definition validHeaderFieldByte :: "char \<Rightarrow> bool" where
  "validHeaderFieldByte c =
     (isUpper c \<or> isLower c \<or> isDigit c \<or>
      List.member (''!#$%&*+-.^_|~'' @ [squote, backquote]) c)"

text \<open>
  The canonical form of a header key: the first letter and every letter after a hyphen
  in upper case, the other letters in lower case. The flag says that the next letter is
  to be in upper case.
\<close>

fun canonicalize :: "bool \<Rightarrow> string \<Rightarrow> string" where
  "canonicalize upper [] = []"
| "canonicalize upper (c # cs) =
     (let c' = (if upper \<and> isLower c then char_of (of_char c - (0x20 :: nat))
                else if \<not> upper \<and> isUpper c then char_of (of_char c + (0x20 :: nat))
                else c)
      in c' # canonicalize (c' = CHR ''-'') cs)"

text \<open>
  \<^verbatim>\<open>textproto.CanonicalMIMEHeaderKey\<close>: a key with a byte that is not a \<^verbatim>\<open>tchar\<close>
  (a space too) is returned as it is.
\<close>

definition CanonicalMIMEHeaderKey :: "string \<Rightarrow> string" where
  "CanonicalMIMEHeaderKey s = (if list_all validHeaderFieldByte s then canonicalize True s else s)"

text \<open>\<^verbatim>\<open>MIMEHeader.Del\<close>: \<^verbatim>\<open>delete(h, CanonicalMIMEHeaderKey(key))\<close>.\<close>

definition Del :: "MIMEHeader \<Rightarrow> string \<Rightarrow> MIMEHeader" where
  "Del h key = filter (\<lambda>kv. fst kv \<noteq> CanonicalMIMEHeaderKey key) h"

section \<open>The curl renderer\<close>

text \<open>
  An \<^verbatim>\<open>io.Writer\<close> over a sink of type \<open>'s\<close>: a write returns the sink after the
  write and the error, if any. A failed write may still have written a part.
\<close>

type_synonym 's writer = "'s \<Rightarrow> string \<Rightarrow> 's \<times> error option"

text \<open>Two sinks that never fail: the text written so far, and the list of the writes.\<close>

definition bufferWriter :: "string writer" where
  "bufferWriter s x = (s @ x, None)"

definition chunkWriter :: "string list writer" where
  "chunkWriter s x = (s @ [x], None)"

text \<open>A sink that accepts a given number of writes and fails from then on.\<close>

definition failingWriter :: "(nat \<times> string) writer" where
  "failingWriter s x =
     (case s of (n, out) \<Rightarrow>
        if n = 0 then ((0, out), Some (OtherError ''write failed''))
        else ((n - 1, out @ x), None))"

text \<open>The line continuation \<^verbatim>\<open>"\\\n\t"\<close> and the fixed authorization header.\<close>

definition continuation :: string where
  "continuation = [backslash, LF, TAB]"

definition authorization :: string where
  \<open>authorization = ''-H "Authorization: Bearer $MOONSHOT_API_KEY"''\<close>

text \<open>The text of one \<^verbatim>\<open>-H\<close> write of the header loop (lines 158 to 164).\<close>

definition headerLine :: "string \<Rightarrow> string \<Rightarrow> string" where
  "headerLine k v =
     ''-H '' @ [squote] @ escape k @ '': '' @ escape v @ [squote] @ '' '' @ continuation"

text \<open>The inner loop \<^verbatim>\<open>for _, v := range vv\<close>: a failed write returns its error.\<close>

fun writeValues :: "'s writer \<Rightarrow> string \<Rightarrow> 's \<Rightarrow> string list \<Rightarrow> 's \<times> error option" where
  "writeValues w k s [] = (s, None)"
| "writeValues w k s (v # vv) =
     (case w s (headerLine k v) of
        (s', Some err) \<Rightarrow> (s', Some err)
      | (s', None) \<Rightarrow> writeValues w k s' vv)"

text \<open>The outer loop \<^verbatim>\<open>for k, vv := range mimeHeader\<close>, over the entries in the order of the visit.\<close>

fun writeHeaders :: "'s writer \<Rightarrow> 's \<Rightarrow> MIMEHeader \<Rightarrow> 's \<times> error option" where
  "writeHeaders w s [] = (s, None)"
| "writeHeaders w s ((k, vv) # m) =
     (case writeValues w k s vv of
        (s', Some err) \<Rightarrow> (s', Some err)
      | (s', None) \<Rightarrow> writeHeaders w s' m)"

text \<open>\<^verbatim>\<open>if _, err := ...; err != nil { return err }\<close>, followed by the rest of the body.\<close>

definition orReturn :: "'s \<times> error option \<Rightarrow> ('s \<Rightarrow> 's \<times> error option) \<Rightarrow> 's \<times> error option" where
  "orReturn r rest = (case r of (s, Some err) \<Rightarrow> (s, Some err) | (s, None) \<Rightarrow> rest s)"

text \<open>
  \<^verbatim>\<open>writeCurlCommand(w, request)\<close>. The sink is passed in and returned; the second
  component is the function's \<^verbatim>\<open>error\<close>. The error of \<^verbatim>\<open>ReadMIMEHeader\<close> is dropped,
  as the blank identifier of line 151 does.
\<close>

definition writeCurlCommand :: "externals \<Rightarrow> 's writer \<Rightarrow> 's \<Rightarrow> Request \<Rightarrow> 's \<times> error option" where
  "writeCurlCommand E w s request =
     orReturn (w s (''curl -X '' @ [squote] @ escape (RequestMethod request) @ [squote] @ '' '' @
                    [squote] @ escape (Url E request) @ [squote] @ '' '' @ continuation)) (\<lambda>s.
     orReturn (w s (authorization @ continuation)) (\<lambda>s.
     orReturn
       (if Valid (RequestHeader request) then
          (let mimeHeader = fst (ReadMIMEHeader E (String (RequestHeader request) @ [CR, LF, CR, LF]));
               mimeHeader = Del mimeHeader ''Content-Length'';
               mimeHeader = Del mimeHeader ''X-Unix-Micro''
           in writeHeaders w s (rangeOrder E mimeHeader))
        else (s, None)) (\<lambda>s.
     orReturn
       (if Valid (RequestBody request) then
          w s (''-d '' @ [squote] @ escape (String (RequestBody request)) @ [squote])
        else (s, None)) (\<lambda>s.
     w s [LF]))))"

section \<open>Quoting in the shell\<close>

text \<open>
  The value of one word of the POSIX shell after quote removal (Shell Command Language,
  section 2.2). Between single quotes every character stands for itself. Between double
  quotes a character stands for itself, but for the dollar sign and the backquote (which
  start an expansion: not a word of this fragment) and the backslash, which quotes a
  following dollar sign, backquote, double quote or backslash and is removed together
  with a following newline. Outside quotes a backslash quotes the next character, and a
  separator, an operator or a character that starts an expansion or a pattern ends the
  fragment. The result is \<open>None\<close> for a text that is not one word of the fragment.
\<close>

datatype quoting = Unquoted | SingleQuoted | DoubleQuoted

definition shellSpecial :: "char \<Rightarrow> bool" where
  "shellSpecial c = List.member (''|&;<>()$ *?[#~=%'' @ [TAB, LF, backquote]) c"

fun shellWord :: "quoting \<Rightarrow> string \<Rightarrow> string option" where
  "shellWord Unquoted [] = Some []"
| "shellWord SingleQuoted [] = None"
| "shellWord DoubleQuoted [] = None"
| "shellWord SingleQuoted (c # cs) =
     (if c = squote then shellWord Unquoted cs
      else map_option ((#) c) (shellWord SingleQuoted cs))"
| "shellWord DoubleQuoted (c # cs) =
     (if c = dquote then shellWord Unquoted cs
      else if c = CHR ''$'' \<or> c = backquote then None
      else if c = backslash then
        (case cs of
           [] \<Rightarrow> None
         | d # ds \<Rightarrow>
             if d = LF then shellWord DoubleQuoted ds
             else if d = CHR ''$'' \<or> d = backquote \<or> d = dquote \<or> d = backslash
             then map_option ((#) d) (shellWord DoubleQuoted ds)
             else map_option ((#) c) (shellWord DoubleQuoted cs))
      else map_option ((#) c) (shellWord DoubleQuoted cs))"
| "shellWord Unquoted (c # cs) =
     (if c = squote then shellWord SingleQuoted cs
      else if c = dquote then shellWord DoubleQuoted cs
      else if c = backslash then
        (case cs of
           [] \<Rightarrow> None
         | d # ds \<Rightarrow>
             if d = LF then shellWord Unquoted ds
             else map_option ((#) d) (shellWord Unquoted ds))
      else if shellSpecial c then None
      else map_option ((#) c) (shellWord Unquoted cs))"

section \<open>The filename synthesizer\<close>

text \<open>
  \<^verbatim>\<open>appendInt\<close> of package \<^verbatim>\<open>time\<close>: the decimal digits of \<open>x\<close>, padded with zeros
  to \<open>width\<close> digits, after a minus sign when \<open>x\<close> is negative.
\<close>

definition digitChar :: "nat \<Rightarrow> char" where
  "digitChar d = char_of (0x30 + d)"

function decimal :: "nat \<Rightarrow> string" where
  "decimal n = (if n < 10 then [digitChar n] else decimal (n div 10) @ [digitChar (n mod 10)])"
  by pat_completeness auto
termination
  by (relation "measure (\<lambda>n. n)") auto

declare decimal.simps [simp del]

definition appendInt :: "int \<Rightarrow> nat \<Rightarrow> string" where
  "appendInt x width =
     (let ds = decimal (nat \<bar>x\<bar>)
      in (if x < 0 then ''-'' else []) @ replicate (width - length ds) (CHR ''0'') @ ds)"

text \<open>
  \<^verbatim>\<open>Format("20060102150405")\<close>: the layout is the year on four digits, then the
  month, the day, the hour (of 24), the minute and the second on two digits each.
\<close>

definition Format :: "Time \<Rightarrow> string" where
  "Format t =
     appendInt (Year t) 4 @ appendInt (int (Month t)) 2 @ appendInt (int (Day t)) 2 @
     appendInt (int (Hour t)) 2 @ appendInt (int (Minute t)) 2 @ appendInt (int (Second t)) 2"

text \<open>\<^verbatim>\<open>genFilename(request)\<close>.\<close>

definition genFilename :: "externals \<Rightarrow> Request \<Rightarrow> string" where
  "genFilename E request =
     (let ident = Ident E request in
      if HasPrefix ident ''chatcmpl='' then
        TrimPrefix ident ''chatcmpl='' @ ''.json''
      else if HasPrefix ident ''requestid='' then
        ''requestid-'' @ TrimPrefix ident ''requestid='' @ ''.json''
      else
        (ToLower (unicodeLower E) (RequestMethod request) @
         ''-'' @
         ReplaceAll (TrimPrefix (RequestPath request) ''/v1/'') ''/'' ''-'' @
         (if Valid (MoonshotUID request) then ''-'' @ String (MoonshotUID request) else []) @
         ''-'' @
         Format (CreatedAt request)) @ ''.json'')"

section \<open>The export command\<close>

text \<open>
  The variables that the flags of lines 90 to 99 set, with the defaults registered
  there. A parsed command line is a list of settings, applied from left to right to the
  defaults: a repeated \<^verbatim>\<open>--tag\<close> appends, any other flag keeps its last value.
\<close>

record flags =
  id' :: "64 word"
  chatcmpl :: string
  requestID :: string
  output' :: string
  directory :: string
  escapeHTML :: bool
  goodCase :: bool
  badCase :: bool
  tags :: "string list"
  curl :: bool

definition defaultFlags :: flags where
  "defaultFlags =
     \<lparr>id' = 0, chatcmpl = [], requestID = [], output' = ''stdout'', directory = [],
      escapeHTML = False, goodCase = False, badCase = False, tags = [], curl = False\<rparr>"

datatype arg =
    ArgId "64 word" | ArgChatcmpl string | ArgRequestid string | ArgOutput string
  | ArgDirectory string | ArgEscapeHtml bool | ArgGood bool | ArgBad bool | ArgTag string
  | ArgCurl bool

fun setFlag :: "flags \<Rightarrow> arg \<Rightarrow> flags" where
  "setFlag f (ArgId n) = f\<lparr>id' := n\<rparr>"
| "setFlag f (ArgChatcmpl s) = f\<lparr>chatcmpl := s\<rparr>"
| "setFlag f (ArgRequestid s) = f\<lparr>requestID := s\<rparr>"
| "setFlag f (ArgOutput s) = f\<lparr>output' := s\<rparr>"
| "setFlag f (ArgDirectory s) = f\<lparr>directory := s\<rparr>"
| "setFlag f (ArgEscapeHtml b) = f\<lparr>escapeHTML := b\<rparr>"
| "setFlag f (ArgGood b) = f\<lparr>goodCase := b\<rparr>"
| "setFlag f (ArgBad b) = f\<lparr>badCase := b\<rparr>"
| "setFlag f (ArgTag s) = f\<lparr>tags := tags f @ [s]\<rparr>"
| "setFlag f (ArgCurl b) = f\<lparr>curl := b\<rparr>"

definition parseFlags :: "arg list \<Rightarrow> flags" where
  "parseFlags args = foldl setFlag defaultFlags args"

text \<open>A setting of \<^verbatim>\<open>--escape-html\<close>.\<close>

definition isEscapeHtml :: "arg \<Rightarrow> bool" where
  "isEscapeHtml a = (case a of ArgEscapeHtml b \<Rightarrow> True | _ \<Rightarrow> False)"

text \<open>
  The settings of a \<^verbatim>\<open>json.Encoder\<close>. \<^verbatim>\<open>json.NewEncoder\<close> starts without
  indentation and with the escaping of \<^verbatim>\<open><\<close>, \<^verbatim>\<open>>\<close> and \<^verbatim>\<open>&\<close> switched on.
\<close>

record encoder =
  indentPrefix :: string
  indentValue :: string
  escapesHTML :: bool

definition NewEncoder :: encoder where
  "NewEncoder = \<lparr>indentPrefix = [], indentValue = [], escapesHTML = True\<rparr>"

definition SetIndent :: "encoder \<Rightarrow> string \<Rightarrow> string \<Rightarrow> encoder" where
  "SetIndent enc prefix indent = enc\<lparr>indentPrefix := prefix, indentValue := indent\<rparr>"

definition SetEscapeHTML :: "encoder \<Rightarrow> bool \<Rightarrow> encoder" where
  "SetEscapeHTML enc on = enc\<lparr>escapesHTML := on\<rparr>"

text \<open>The streams a run writes to, and the operating system and libraries behind them.\<close>

datatype stream = Stdout | Stderr | File string

text \<open>
  What a run of the command calls outside \<^verbatim>\<open>export.go\<close>, over a state \<open>'w\<close> of the
  outside world: \<^verbatim>\<open>persistence.GetRequest\<close>, \<^verbatim>\<open>os.Create\<close>, the \<^verbatim>\<open>Write\<close> of a
  stream, \<^verbatim>\<open>filepath.Join\<close>, and the document that \<^verbatim>\<open>Encode\<close> produces for a record
  under given settings (with its final newline), or the error of the encoding.
\<close>

record 'w system =
  GetRequest :: "64 word \<Rightarrow> string \<Rightarrow> string \<Rightarrow> error + Request"
  Create :: "string \<Rightarrow> 'w \<Rightarrow> 'w \<times> error option"
  WriteTo :: "stream \<Rightarrow> 'w writer"
  Join :: "string \<Rightarrow> string \<Rightarrow> string"
  Marshal :: "encoder \<Rightarrow> Request \<Rightarrow> error + string"

text \<open>
  How a run ends: it returns, with the record as it stands in memory, or \<^verbatim>\<open>logFatal\<close>
  ends the process with an error.
\<close>

datatype 'w outcome = Returned 'w Request | Fatal error 'w

text \<open>Lines 46 to 56: the category and the tags of a chat record.\<close>

definition annotate :: "externals \<Rightarrow> flags \<Rightarrow> Request \<Rightarrow> Request" where
  "annotate E f request =
     (if IsChat E request then
        (let request =
               (if goodCase f then request\<lparr>Category := ''goodcase''\<rparr>
                else if badCase f then request\<lparr>Category := ''badcase''\<rparr>
                else request)
         in if length (tags f) > 0 then request\<lparr>Tags := tags f\<rparr> else request)
      else request)"

text \<open>Lines 57 to 80: the stream of the JSON document; a file is created first.\<close>

definition openOutput :: "externals \<Rightarrow> 'w system \<Rightarrow> flags \<Rightarrow> 'w \<Rightarrow> Request \<Rightarrow> (stream \<times> 'w) + (error \<times> 'w)" where
  "openOutput E S f world request =
     (if directory f \<noteq> [] then
        (let path = Join S (directory f) (genFilename E request) in
         case Create S path world of
           (world', Some err) \<Rightarrow> Inr (err, world')
         | (world', None) \<Rightarrow> Inl (File path, world'))
      else if output' f = ''stdout'' then Inl (Stdout, world)
      else if output' f = ''stderr'' then Inl (Stderr, world)
      else
        (case Create S (output' f) world of
           (world', Some err) \<Rightarrow> Inr (err, world')
         | (world', None) \<Rightarrow> Inl (File (output' f), world')))"

text \<open>Lines 81 to 83: the encoder of the run.\<close>

definition jsonEncoder :: "flags \<Rightarrow> encoder" where
  "jsonEncoder f = SetEscapeHTML (SetIndent NewEncoder [] ''    '') (escapeHTML f)"

text \<open>\<^verbatim>\<open>encoder.Encode(request)\<close>: the document is written in one write.\<close>

definition Encode :: "'w system \<Rightarrow> encoder \<Rightarrow> stream \<Rightarrow> 'w \<Rightarrow> Request \<Rightarrow> 'w \<times> error option" where
  "Encode S enc out world request =
     (case Marshal S enc request of
        Inl err \<Rightarrow> (world, Some err)
      | Inr doc \<Rightarrow> WriteTo S out world doc)"

text \<open>
  The \<^verbatim>\<open>Run\<close> function of the command (lines 32 to 87). The deferred \<^verbatim>\<open>Close\<close> of a
  created file is not part of the model.
\<close>

definition Run :: "externals \<Rightarrow> 'w system \<Rightarrow> flags \<Rightarrow> 'w \<Rightarrow> 'w outcome" where
  "Run E S f world =
     (case GetRequest S (id' f) (chatcmpl f) (requestID f) of
        Inl err \<Rightarrow> Fatal (if isErrNoRows err then ErrNoRows else err) world
      | Inr request \<Rightarrow>
          if curl f then
            (case writeCurlCommand E (WriteTo S Stdout) world request of
               (world', Some err) \<Rightarrow> Fatal err world'
             | (world', None) \<Rightarrow> Returned world' request)
          else
            (let request = annotate E f request in
             case openOutput E S f world request of
               Inr (err, world') \<Rightarrow> Fatal err world'
             | Inl (out, world') \<Rightarrow>
                 (case Encode S (jsonEncoder f) out world' request of
                    (world'', Some err) \<Rightarrow> Fatal err world''
                  | (world'', None) \<Rightarrow> Returned world'' request)))"

section \<open>The parts of the rendered command\<close>

text \<open>
  Names for what the theorems on the renderer speak about: the fields of a
  header, value by value; the writes of the header loops; the entries that the header
  loop of a record visits (none when the record has no header block); and the texts of
  the first and of the last write before the final newline.
\<close>

definition headerFields :: "MIMEHeader \<Rightarrow> (string \<times> string) list" where
  "headerFields m = concat (map (\<lambda>kv. map (Pair (fst kv)) (snd kv)) m)"

definition headerLines :: "MIMEHeader \<Rightarrow> string list" where
  "headerLines m = map (\<lambda>kv. headerLine (fst kv) (snd kv)) (headerFields m)"

definition parsedHeader :: "externals \<Rightarrow> Request \<Rightarrow> MIMEHeader" where
  "parsedHeader E request =
     fst (ReadMIMEHeader E (String (RequestHeader request) @ [CR, LF, CR, LF]))"

definition visitedHeader :: "externals \<Rightarrow> Request \<Rightarrow> MIMEHeader" where
  "visitedHeader E request =
     (if Valid (RequestHeader request)
      then rangeOrder E (Del (Del (parsedHeader E request) ''Content-Length'') ''X-Unix-Micro'')
      else [])"

definition commandLine :: "externals \<Rightarrow> Request \<Rightarrow> string" where
  "commandLine E request =
     ''curl -X '' @ [squote] @ escape (RequestMethod request) @ [squote] @ '' '' @
     [squote] @ escape (Url E request) @ [squote] @ '' ''"

definition bodyLine :: "Request \<Rightarrow> string" where
  "bodyLine request =
     (if Valid (RequestBody request)
      then ''-d '' @ [squote] @ escape (String (RequestBody request)) @ [squote]
      else [])"

text \<open>\<^verbatim>\<open>strings.Contains\<close>: the text holds the other text somewhere.\<close>

fun Contains :: "string \<Rightarrow> string \<Rightarrow> bool" where
  "Contains [] sub = (sub = [])"
| "Contains (c # cs) sub = (HasPrefix (c # cs) sub \<or> Contains cs sub)"

text \<open>
  A name that reads \<^verbatim>\<open>content-length\<close> or \<^verbatim>\<open>x-unix-micro\<close> when its letters are
  lowered is spelled the way \<^verbatim>\<open>Del\<close> looks it up.
\<close>

definition canonicalName :: "string \<Rightarrow> bool" where
  "canonicalName k =
     ((map asciiLower k = ''content-length'' \<longrightarrow> k = ''Content-Length'') \<and>
      (map asciiLower k = ''x-unix-micro'' \<longrightarrow> k = ''X-Unix-Micro''))"

section \<open>The header reader of the Go library\<close>

text \<open>
  \<^verbatim>\<open>Reader.ReadMIMEHeader\<close> of \<^verbatim>\<open>net/textproto\<close>, reading from a string, as recent
  releases of Go define it (without its limits on size, which \<^verbatim>\<open>ReadMIMEHeader\<close> sets
  to the largest integer, and without the text of the line in the error messages). It
  is the instance of the parameter \<open>ReadMIMEHeader\<close> in the worked examples; the
  theorems on the renderer hold for every reader.
\<close>

definition isBlank :: "char \<Rightarrow> bool" where
  "isBlank c = (c = CHR '' '' \<or> c = TAB)"

text \<open>\<^verbatim>\<open>trim\<close>: the line without the spaces and tabs at its two ends.\<close>

definition trim :: "string \<Rightarrow> string" where
  "trim s = rev (dropWhile isBlank (rev (dropWhile isBlank s)))"

text \<open>
  \<^verbatim>\<open>readLineSlice\<close>: the next line without its end of line (\<^verbatim>\<open>\n\<close> or \<^verbatim>\<open>\r\n\<close>), and
  the input after it; \<open>None\<close> is \<^verbatim>\<open>io.EOF\<close>. A last line without a newline is returned
  as it is.
\<close>

definition ReadLine :: "string \<Rightarrow> (string \<times> string) option" where
  "ReadLine s =
     (if s = [] then None
      else
        (let line = takeWhile (\<lambda>c. c \<noteq> LF) s in
         case dropWhile (\<lambda>c. c \<noteq> LF) s of
           [] \<Rightarrow> Some (line, [])
         | _ # rest \<Rightarrow> Some (if line \<noteq> [] \<and> last line = CR then butlast line else line, rest)))"

text \<open>
  The loop of \<^verbatim>\<open>readContinuedLineSlice\<close>: while the next line starts with spaces or
  tabs (\<^verbatim>\<open>skipSpace\<close> counts them), a space and the trimmed line are appended to the
  field read so far.
\<close>

function readContinuation :: "string \<Rightarrow> string \<Rightarrow> string \<times> string" where
  "readContinuation buf s =
     (let n = length (takeWhile isBlank s) in
      if n = 0 then (buf, s)
      else
        (case ReadLine (drop n s) of
           None \<Rightarrow> (buf @ '' '', [])
         | Some (line, rest) \<Rightarrow> readContinuation (buf @ '' '' @ trim line) rest))"
  by pat_completeness auto
termination
proof -
  have shorter: "length rest < length s" if a: "ReadLine s = Some (line, rest)" for s line rest
  proof -
    have "length (dropWhile (\<lambda>c. c \<noteq> LF) s) \<le> length s"
      by (rule length_dropWhile_le)
    with a show ?thesis
      by (cases s; cases "dropWhile (\<lambda>c. c \<noteq> LF) s")
         (auto simp: ReadLine_def Let_def split: if_splits)
  qed
  show ?thesis
    by (relation "measure (\<lambda>(buf, s). length s)") (auto dest!: shorter)
qed

declare readContinuation.simps [simp del]

text \<open>\<^verbatim>\<open>validHeaderValueByte\<close>: a tab, a space, a visible ASCII character or a byte from 0x80.\<close>

definition validHeaderValueByte :: "char \<Rightarrow> bool" where
  "validHeaderValueByte c =
     (c = TAB \<or> ((0x20 :: nat) \<le> of_char c \<and> of_char c \<le> (0x7E :: nat)) \<or>
      (0x80 :: nat) \<le> of_char c)"

text \<open>
  \<^verbatim>\<open>canonicalMIMEHeaderKey\<close>, the key and whether it is accepted: an empty key and a
  key with a byte that is neither a \<^verbatim>\<open>tchar\<close> nor a space are refused; a key with a
  space is accepted as it is; any other key is brought into canonical form.
\<close>

definition canonicalMIMEHeaderKey :: "string \<Rightarrow> string \<times> bool" where
  "canonicalMIMEHeaderKey a =
     (if a = [] then ([], False)
      else if \<not> list_all (\<lambda>c. validHeaderFieldByte c \<or> c = CHR '' '') a then (a, False)
      else if List.member a (CHR '' '') then (a, True)
      else (canonicalize True a, True))"

text \<open>\<^verbatim>\<open>m[key] = append(m[key], value)\<close>.\<close>

fun appendValue :: "MIMEHeader \<Rightarrow> string \<Rightarrow> string \<Rightarrow> MIMEHeader" where
  "appendValue [] key v = [(key, [v])]"
| "appendValue ((k, vv) # m) key v =
     (if k = key then (k, vv @ [v]) # m else (k, vv) # appendValue m key v)"

text \<open>
  The loop of \<^verbatim>\<open>readMIMEHeader\<close>. An empty line ends the header. A line without a
  colon, a refused key or a refused byte in the value ends the reading with a
  \<^verbatim>\<open>ProtocolError\<close>: the header read so far is returned together with the error.
\<close>

function readFields :: "MIMEHeader \<Rightarrow> string \<Rightarrow> MIMEHeader \<times> error option" where
  "readFields m s =
     (case ReadLine s of
        None \<Rightarrow> (m, Some EOF)
      | Some (line, rest) \<Rightarrow>
          if line = [] then (m, None)
          else if \<not> List.member line (CHR '':'') then
            (m, Some (ProtocolError ''malformed MIME header: missing colon''))
          else
            (case readContinuation (trim line) rest of (kv, rest') \<Rightarrow>
               (let k = takeWhile (\<lambda>c. c \<noteq> CHR '':'') kv;
                    v = drop (length k + 1) kv
                in case canonicalMIMEHeaderKey k of (key, ok) \<Rightarrow>
                  if \<not> ok then (m, Some (ProtocolError ''malformed MIME header line''))
                  else if \<not> list_all validHeaderValueByte v then
                    (m, Some (ProtocolError ''malformed MIME header line''))
                  else readFields (appendValue m key (dropWhile isBlank v)) rest')))"
  by pat_completeness auto
termination
proof -
  have shorter: "length rest < length s" if a: "ReadLine s = Some (line, rest)" for s line rest
  proof -
    have "length (dropWhile (\<lambda>c. c \<noteq> LF) s) \<le> length s"
      by (rule length_dropWhile_le)
    with a show ?thesis
      by (cases s; cases "dropWhile (\<lambda>c. c \<noteq> LF) s")
         (auto simp: ReadLine_def Let_def split: if_splits)
  qed
  have continued: "length rest \<le> length s" if "(kv, rest) = readContinuation buf s"
    for buf s kv rest
    using that
  proof (induction buf s arbitrary: kv rest rule: readContinuation.induct)
    case (1 buf s)
    show ?case
    proof (cases "length (takeWhile isBlank s) = 0")
      case True
      with "1.prems" show ?thesis
        by (simp add: readContinuation.simps [of buf s] Let_def)
    next
      case False
      show ?thesis
      proof (cases "ReadLine (drop (length (takeWhile isBlank s)) s)")
        case None
        with False "1.prems" show ?thesis
          by (simp add: readContinuation.simps [of buf s] Let_def)
      next
        case (Some p)
        obtain line r where p: "p = (line, r)"
          by (cases p)
        from Some p have "length r < length (drop (length (takeWhile isBlank s)) s)"
          by (auto dest: shorter)
        then have r: "length r < length s"
          by simp
        from "1.prems" False Some p
        have "(kv, rest) = readContinuation (buf @ '' '' @ trim line) r"
          by (simp add: readContinuation.simps [of buf s] Let_def)
        from "1.IH" [OF refl False Some p [symmetric] this] r show ?thesis
          by simp
      qed
    qed
  qed
  show ?thesis
    by (relation "measure (\<lambda>(m, s). length s)") (auto dest!: shorter continued)
qed

declare readFields.simps [simp del]

text \<open>The first line of a header cannot start with a space or a tab.\<close>

definition textprotoReadMIMEHeader :: "string \<Rightarrow> MIMEHeader \<times> error option" where
  "textprotoReadMIMEHeader s =
     (if s \<noteq> [] \<and> isBlank (hd s) then
        ([], Some (ProtocolError ''malformed MIME header initial line''))
      else readFields [] s)"

section \<open>Instances for the worked examples\<close>

text \<open>
  An instance of the parameters: the header reader of the Go library, a visit of the
  header in the order of its list, and stand-ins for the methods of \<^verbatim>\<open>Request\<close> and
  for the Unicode tables (the examples lower ASCII strings only).
\<close>

definition exampleExternals :: externals where
  "exampleExternals =
     \<lparr>Ident = (\<lambda>request. ''id=1''),
      Url = (\<lambda>request. ''https://api.moonshot.cn'' @ RequestPath request),
      IsChat = (\<lambda>request. RequestPath request = ''/v1/chat/completions''),
      ReadMIMEHeader = textprotoReadMIMEHeader,
      rangeOrder = (\<lambda>m. m),
      unicodeLower = (\<lambda>s. s)\<rparr>"

definition absent :: NullString where
  "absent = \<lparr>String = [], Valid = False\<rparr>"

definition present :: "string \<Rightarrow> NullString" where
  "present s = \<lparr>String = s, Valid = True\<rparr>"

text \<open>
  The record of the specification's example: a \<^verbatim>\<open>POST\<close> of \<^verbatim>\<open>{"a":1}\<close> to
  \<^verbatim>\<open>/v1/chat/completions\<close>, with no stored header.
\<close>

definition exampleRequest :: Request where
  \<open>exampleRequest =
     \<lparr>RequestMethod = ''POST'', RequestPath = ''/v1/chat/completions'',
      RequestHeader = absent, RequestBody = present ''{"a":1}'', MoonshotUID = absent,
      CreatedAt = \<lparr>Year = 2024, Month = 7, Day = 3, Hour = 9, Minute = 5, Second = 0\<rparr>,
      Category = [], Tags = []\<rparr>\<close>

text \<open>
  A record with a stored header block: four fields, two of them to be stripped (one of
  these in lower case), and a value with a single quote.
\<close>

definition headerRequest :: Request where
  "headerRequest =
     exampleRequest\<lparr>RequestHeader := present
       (''content-length: 7'' @ [CR, LF] @ ''Accept: text/plain'' @ [CR, LF] @
        ''X-Unix-Micro: 1720000000000000'' @ [CR, LF] @
        ''accept: it'' @ [squote] @ ''s'' @ [CR, LF])\<rparr>"

text \<open>A record whose header block has a line without a colon after a well-formed field.\<close>

definition brokenRequest :: Request where
  "brokenRequest =
     exampleRequest\<lparr>RequestHeader := present
       (''Accept: text/plain'' @ [CR, LF] @ ''broken line'')\<rparr>"

text \<open>A record whose header block is a line without a colon.\<close>

definition malformedRequest :: Request where
  "malformedRequest = exampleRequest\<lparr>RequestHeader := present ''broken line''\<rparr>"

text \<open>
  A record whose header block is a \<^verbatim>\<open>Content-Length\<close> field and a line without a colon.
\<close>

definition lengthOnlyRequest :: Request where
  "lengthOnlyRequest =
     exampleRequest\<lparr>RequestHeader := present
       (''Content-Length: 7'' @ [CR, LF] @ ''broken line'')\<rparr>"

text \<open>
  A record whose header block is a \<^verbatim>\<open>Content-Length\<close> field with a space before the
  colon.
\<close>

definition spacedRequest :: Request where
  "spacedRequest = exampleRequest\<lparr>RequestHeader := present ''Content-Length : 7''\<rparr>"

text \<open>A record whose header block holds an \<^verbatim>\<open>Authorization\<close> field.\<close>

definition leakRequest :: Request where
  "leakRequest =
     exampleRequest\<lparr>RequestHeader := present ''Authorization: Bearer sk-stored-key''\<rparr>"

text \<open>A chat record that has a category and a tag already, and a record that is not a chat.\<close>

definition taggedRequest :: Request where
  "taggedRequest = exampleRequest\<lparr>Category := ''goodcase'', Tags := [''old'']\<rparr>"

definition modelsRequest :: Request where
  "modelsRequest =
     exampleRequest\<lparr>RequestMethod := ''GET'', RequestPath := ''/v1/models'', RequestBody := absent\<rparr>"

text \<open>
  An outside world for the runs of the examples: the text of the two standard streams
  and the files, none of which fails. The store holds the record of the example under
  the row id 1 and \<open>modelsRequest\<close> under 2. The document of a record is a stand-in
  (the declaration of \<^verbatim>\<open>Request\<close>, with its JSON field names, is not part of
  \<^verbatim>\<open>export.go\<close>): the category and the tags as JSON strings on one line, where
  \<^verbatim>\<open><\<close>, \<^verbatim>\<open>>\<close> and \<^verbatim>\<open>&\<close> are written as their Unicode escapes (a backslash and
  \<^verbatim>\<open>u003c\<close>, \<^verbatim>\<open>u003e\<close> or \<^verbatim>\<open>u0026\<close>) when the encoder escapes them, as
  \<^verbatim>\<open>encoding/json\<close> does.
\<close>

record world =
  stdoutText :: string
  stderrText :: string
  files :: "(string \<times> string) list"

definition emptyWorld :: world where
  "emptyWorld = \<lparr>stdoutText = [], stderrText = [], files = []\<rparr>"

definition escapeJSON :: "encoder \<Rightarrow> string \<Rightarrow> string" where
  "escapeJSON enc s =
     concat (map (\<lambda>c.
       if escapesHTML enc \<and> c = CHR ''<'' then [backslash] @ ''u003c''
       else if escapesHTML enc \<and> c = CHR ''>'' then [backslash] @ ''u003e''
       else if escapesHTML enc \<and> c = CHR ''&'' then [backslash] @ ''u0026''
       else [c]) s)"

definition exampleDocument :: "encoder \<Rightarrow> Request \<Rightarrow> string" where
  "exampleDocument enc request =
     [dquote] @ escapeJSON enc (Category request) @ [dquote] @
     concat (map (\<lambda>t. '' '' @ [dquote] @ escapeJSON enc t @ [dquote]) (Tags request)) @ [LF]"

definition exampleSystem :: "world system" where
  "exampleSystem =
     \<lparr>GetRequest = (\<lambda>n c r. if n = 1 then Inr exampleRequest
                            else if n = 2 then Inr modelsRequest else Inl ErrNoRows),
      Create = (\<lambda>path w. (w\<lparr>files := (path, []) # filter (\<lambda>f. fst f \<noteq> path) (files w)\<rparr>, None)),
      WriteTo = (\<lambda>out w text.
         case out of
           Stdout \<Rightarrow> (w\<lparr>stdoutText := stdoutText w @ text\<rparr>, None)
         | Stderr \<Rightarrow> (w\<lparr>stderrText := stderrText w @ text\<rparr>, None)
         | File path \<Rightarrow>
             (w\<lparr>files := map (\<lambda>f. if fst f = path then (path, snd f @ text) else f) (files w)\<rparr>,
              None)),
      Join = (\<lambda>dir name. dir @ ''/'' @ name),
      Marshal = (\<lambda>enc request. Inr (exampleDocument enc request))\<rparr>"

section \<open>Properties\<close>

subsection \<open>Quoting\<close>

lemma escape_Nil: "escape [] = []"
  by (simp add: escape_def)

lemma escape_Cons:
  "escape (c # cs) =
     (if c = squote then [squote, dquote, squote, dquote, squote] else [c]) @ escape cs"
  by (simp add: escape_def HasPrefix_def)

lemma escape_append: "escape (a @ b) = escape a @ escape b"
  by (induction a) (simp_all add: escape_Nil escape_Cons)

lemma shellWord_SingleQuoted_escape: "shellWord SingleQuoted (escape s @ [squote]) = Some s"
  by (induction s) (simp_all add: escape_Nil escape_Cons)

subsection \<open>The writes of the renderer into a sink that does not fail\<close>

lemma writeValues_chunkWriter:
  "writeValues chunkWriter k s vv = (s @ map (headerLine k) vv, None)"
  by (induction vv arbitrary: s) (simp_all add: chunkWriter_def)

lemma writeHeaders_chunkWriter: "writeHeaders chunkWriter s m = (s @ headerLines m, None)"
  by (induction m arbitrary: s)
     (auto simp: headerLines_def headerFields_def writeValues_chunkWriter comp_def)

lemma writeValues_bufferWriter:
  "writeValues bufferWriter k s vv = (s @ concat (map (headerLine k) vv), None)"
  by (induction vv arbitrary: s) (simp_all add: bufferWriter_def)

lemma writeHeaders_bufferWriter:
  "writeHeaders bufferWriter s m = (s @ concat (headerLines m), None)"
  by (induction m arbitrary: s)
     (auto simp: headerLines_def headerFields_def writeValues_bufferWriter comp_def)

lemma writeCurlCommand_chunkWriter:
  "writeCurlCommand E chunkWriter s request =
     (s @ [commandLine E request @ continuation, authorization @ continuation] @
      headerLines (visitedHeader E request) @
      (if Valid (RequestBody request) then [bodyLine request] else []) @ [[LF]], None)"
  by (simp add: writeCurlCommand_def orReturn_def writeHeaders_chunkWriter chunkWriter_def
      visitedHeader_def parsedHeader_def commandLine_def bodyLine_def headerLines_def headerFields_def)

lemma writeCurlCommand_bufferWriter:
  "writeCurlCommand E bufferWriter s request =
     (s @ commandLine E request @ continuation @ authorization @ continuation @
      concat (headerLines (visitedHeader E request)) @ bodyLine request @ [LF], None)"
  by (simp add: writeCurlCommand_def orReturn_def writeHeaders_bufferWriter bufferWriter_def
      visitedHeader_def parsedHeader_def commandLine_def bodyLine_def headerLines_def headerFields_def)

lemma writeCurlCommand_parts:
  "writeCurlCommand E w s request =
     orReturn (w s (commandLine E request @ continuation)) (\<lambda>s.
     orReturn (w s (authorization @ continuation)) (\<lambda>s.
     orReturn (writeHeaders w s (visitedHeader E request)) (\<lambda>s.
     orReturn (if Valid (RequestBody request) then w s (bodyLine request) else (s, None)) (\<lambda>s.
     w s [LF]))))"
  by (simp add: writeCurlCommand_def commandLine_def visitedHeader_def parsedHeader_def
      bodyLine_def Let_def cong: if_cong)

subsection \<open>A write that fails\<close>

text \<open>
  A failed write ends the rendering with its error; what the sink holds is what was
  written before.
\<close>

lemma writeCurlCommand_first_write_fails:
  "w s (commandLine E request @ continuation) = (s', Some err) \<Longrightarrow>
     writeCurlCommand E w s request = (s', Some err)"
  by (simp add: writeCurlCommand_parts orReturn_def)

lemma writeCurlCommand_second_write_fails:
  "w s (commandLine E request @ continuation) = (s', None) \<Longrightarrow>
   w s' (authorization @ continuation) = (s'', Some err) \<Longrightarrow>
     writeCurlCommand E w s request = (s'', Some err)"
  by (simp add: writeCurlCommand_parts orReturn_def)

lemma writeCurlCommand_failingWriter_example:
  "writeCurlCommand exampleExternals failingWriter (1, []) exampleRequest =
     ((0, commandLine exampleExternals exampleRequest @ continuation),
      Some (OtherError ''write failed''))"
  by code_simp

subsection \<open>The stripped header fields\<close>

lemma canonical_stripped_names:
  "CanonicalMIMEHeaderKey ''Content-Length'' = ''Content-Length''"
  "CanonicalMIMEHeaderKey ''X-Unix-Micro'' = ''X-Unix-Micro''"
  by code_simp+

lemma Del_stripped:
  "Del (Del m ''Content-Length'') ''X-Unix-Micro'' =
     filter (\<lambda>kv. fst kv \<noteq> ''Content-Length'' \<and> fst kv \<noteq> ''X-Unix-Micro'') m"
  unfolding Del_def canonical_stripped_names by (induction m) auto

lemma mset_headerFields:
  "mset (headerFields m) = (\<Sum>kv \<in># mset m. mset (map (Pair (fst kv)) (snd kv)))"
  by (induction m) (simp_all add: headerFields_def)

lemma headerFields_filter:
  "headerFields (filter (\<lambda>kv. P (fst kv)) m) = filter (\<lambda>kv. P (fst kv)) (headerFields m)"
  by (induction m)
     (auto simp: headerFields_def filter_concat comp_def
           intro!: filter_True [symmetric] filter_False [symmetric])

subsection \<open>The worked examples\<close>

lemma rangeOrder_example: "rangeOrder exampleExternals m = m"
  by (simp add: exampleExternals_def)

lemma headerRequest_read:
  "ReadMIMEHeader exampleExternals (String (RequestHeader headerRequest) @ [CR, LF, CR, LF]) =
     ([(''Content-Length'', [''7'']),
       (''Accept'', [''text/plain'', [CHR ''i'', CHR ''t'', squote, CHR ''s'']]),
       (''X-Unix-Micro'', [''1720000000000000''])], None)"
  by code_simp

lemma headerRequest_visited:
  "visitedHeader exampleExternals headerRequest =
     [(''Accept'', [''text/plain'', [CHR ''i'', CHR ''t'', squote, CHR ''s'']])]"
  by code_simp

lemma brokenRequest_read:
  "ReadMIMEHeader exampleExternals (String (RequestHeader brokenRequest) @ [CR, LF, CR, LF]) =
     ([(''Accept'', [''text/plain''])],
      Some (ProtocolError ''malformed MIME header: missing colon''))"
  by code_simp

lemma brokenRequest_visited:
  "visitedHeader exampleExternals brokenRequest = [(''Accept'', [''text/plain''])]"
  by code_simp

lemma malformedRequest_read:
  "ReadMIMEHeader exampleExternals (String (RequestHeader malformedRequest) @ [CR, LF, CR, LF]) =
     ([], Some (ProtocolError ''malformed MIME header: missing colon''))"
  by code_simp

lemma leakRequest_read:
  "ReadMIMEHeader exampleExternals (String (RequestHeader leakRequest) @ [CR, LF, CR, LF]) =
     ([(''Authorization'', [''Bearer sk-stored-key''])], None)"
  by code_simp


lemma example_Valid:
  "\<not> Valid (RequestHeader exampleRequest)" "Valid (RequestBody exampleRequest)"
  "Valid (RequestHeader headerRequest)" "Valid (RequestBody headerRequest)"
  "Valid (RequestHeader brokenRequest)" "Valid (RequestBody brokenRequest)"
  "Valid (RequestHeader malformedRequest)" "Valid (RequestBody malformedRequest)"
  "Valid (RequestHeader leakRequest)" "Valid (RequestBody leakRequest)"
  by (simp_all add: exampleRequest_def headerRequest_def brokenRequest_def malformedRequest_def
      leakRequest_def absent_def present_def)

lemma spacedRequest_read:
  "ReadMIMEHeader exampleExternals (String (RequestHeader spacedRequest) @ [CR, LF, CR, LF]) =
     ([(''Content-Length '', [''7''])], None)"
  by code_simp

lemma spacedRequest_visited:
  "visitedHeader exampleExternals spacedRequest = [(''Content-Length '', [''7''])]"
  by code_simp

lemma lengthOnlyRequest_read:
  "ReadMIMEHeader exampleExternals (String (RequestHeader lengthOnlyRequest) @ [CR, LF, CR, LF]) =
     ([(''Content-Length'', [''7''])],
      Some (ProtocolError ''malformed MIME header: missing colon''))"
  by code_simp

lemma spaced_lengthOnly_Valid:
  "Valid (RequestHeader spacedRequest)" "Valid (RequestBody spacedRequest)"
  "Valid (RequestHeader lengthOnlyRequest)" "Valid (RequestBody lengthOnlyRequest)"
  by (simp_all add: exampleRequest_def spacedRequest_def lengthOnlyRequest_def present_def)

lemma absent_header_Url:
  "Url exampleExternals (request\<lparr>RequestHeader := absent\<rparr>) = Url exampleExternals request"
  by (simp add: exampleExternals_def)

subsection \<open>The lines of the header fields\<close>

lemma headerLines_text:
  "headerLines m =
     map (\<lambda>kv. ''-H '' @ [squote] @ escape (fst kv) @ '': '' @ escape (snd kv) @ [squote] @
                '' '' @ [backslash, LF, TAB])
       (headerFields m)"
  by (simp add: headerLines_def headerLine_def continuation_def)

lemma visitedHeader_Valid:
  "Valid (RequestHeader request) \<Longrightarrow>
     visitedHeader E request =
       rangeOrder E (filter (\<lambda>kv. fst kv \<noteq> ''Content-Length'' \<and> fst kv \<noteq> ''X-Unix-Micro'')
         (parsedHeader E request))"
  by (simp add: visitedHeader_def Del_stripped)

lemma mset_visited_fields:
  assumes "Valid (RequestHeader request)" "\<forall>m. mset (rangeOrder E m) = mset m"
  shows "mset (headerFields (visitedHeader E request)) =
      filter_mset (\<lambda>kv. fst kv \<noteq> ''Content-Length'' \<and> fst kv \<noteq> ''X-Unix-Micro'')
        (mset (headerFields (parsedHeader E request)))"
proof -
  have "mset (headerFields (visitedHeader E request)) =
      mset (headerFields
        (filter (\<lambda>kv. fst kv \<noteq> ''Content-Length'' \<and> fst kv \<noteq> ''X-Unix-Micro'')
           (parsedHeader E request)))"
    unfolding visitedHeader_Valid [OF assms(1)] mset_headerFields using assms(2) by simp
  also have "\<dots> =
      filter_mset (\<lambda>kv. fst kv \<noteq> ''Content-Length'' \<and> fst kv \<noteq> ''X-Unix-Micro'')
        (mset (headerFields (parsedHeader E request)))"
    using headerFields_filter
      [of "\<lambda>k. k \<noteq> ''Content-Length'' \<and> k \<noteq> ''X-Unix-Micro''" "parsedHeader E request"]
    by simp
  finally show ?thesis .
qed

lemma headerFields_names:
  "list_all (\<lambda>kv. P (fst kv)) m \<Longrightarrow> list_all (\<lambda>kv. P (fst kv)) (headerFields m)"
  by (induction m) (auto simp: headerFields_def list_all_iff)

lemma writeHeaders_no_fields: "headerFields m = [] \<Longrightarrow> writeHeaders w s m = (s, None)"
proof (induction m arbitrary: s)
  case Nil
  show ?case by simp
next
  case (Cons kv m)
  obtain k vv where kv: "kv = (k, vv)"
    by (cases kv)
  from Cons.prems kv have "vv = []" "headerFields m = []"
    by (simp_all add: headerFields_def)
  with Cons.IH kv show ?case
    by simp
qed

lemma concat_headerLines_Nil: "concat (headerLines m) = [] \<longleftrightarrow> headerFields m = []"
  by (cases "headerFields m") (simp_all add: headerLines_text)

lemma visited_fields_Nil:
  assumes "Valid (RequestHeader request)" "\<forall>m. mset (rangeOrder E m) = mset m"
  shows "headerFields (visitedHeader E request) = [] \<longleftrightarrow>
         list_all (\<lambda>kv. fst kv = ''Content-Length'' \<or> fst kv = ''X-Unix-Micro'')
           (headerFields (parsedHeader E request))"
proof -
  from assms have m: "mset (headerFields (visitedHeader E request)) =
      filter_mset (\<lambda>kv. fst kv \<noteq> ''Content-Length'' \<and> fst kv \<noteq> ''X-Unix-Micro'')
        (mset (headerFields (parsedHeader E request)))"
    by (rule mset_visited_fields)
  have "headerFields (visitedHeader E request) = [] \<longleftrightarrow>
      mset (headerFields (visitedHeader E request)) = {#}"
    by simp
  also have "\<dots> \<longleftrightarrow>
      filter_mset (\<lambda>kv. fst kv \<noteq> ''Content-Length'' \<and> fst kv \<noteq> ''X-Unix-Micro'')
        (mset (headerFields (parsedHeader E request))) = {#}"
    by (simp only: m)
  also have "\<dots> \<longleftrightarrow>
      (\<forall>kv \<in> set (headerFields (parsedHeader E request)).
         \<not> (fst kv \<noteq> ''Content-Length'' \<and> fst kv \<noteq> ''X-Unix-Micro''))"
    by (simp only: filter_mset_eq_mempty_iff set_mset_mset Ball_def)
  also have "\<dots> \<longleftrightarrow>
      list_all (\<lambda>kv. fst kv = ''Content-Length'' \<or> fst kv = ''X-Unix-Micro'')
           (headerFields (parsedHeader E request))"
    unfolding list_all_iff by blast
  finally show ?thesis .
qed

subsection \<open>The names that the reader of the Go library returns\<close>

text \<open>
  The reader spells every name that it accepts without a space in the canonical way, so a
  name that it returns and that is not one of the two stripped keys differs from them
  in more than the case of its letters.
\<close>

lemma of_char_lt: "of_char (c :: char) < (256 :: nat)"
  by (metis of_char_of mod_less_divisor char_of_char zero_less_numeral)

lemma asciiLower_canon_char:
  "asciiLower (if upper \<and> isLower c then char_of (of_char c - (0x20 :: nat))
                else if \<not> upper \<and> isUpper c then char_of (of_char c + (0x20 :: nat))
                else c) = asciiLower c"
  using of_char_lt [of c]
  by (auto simp: asciiLower_def isLower_def isUpper_def)

lemma canon_char_lower:
  "(if upper \<and> isLower (asciiLower c) then char_of (of_char (asciiLower c) - (0x20 :: nat))
    else if \<not> upper \<and> isUpper (asciiLower c) then char_of (of_char (asciiLower c) + (0x20 :: nat))
    else asciiLower c) =
   (if upper \<and> isLower c then char_of (of_char c - (0x20 :: nat))
    else if \<not> upper \<and> isUpper c then char_of (of_char c + (0x20 :: nat))
    else c)"
  using of_char_lt [of c]
  by (auto simp: asciiLower_def isLower_def isUpper_def)

lemma canonicalize_lower: "canonicalize upper (map asciiLower a) = canonicalize upper a"
  by (induction a arbitrary: upper) (simp_all add: canon_char_lower Let_def)

lemma lower_canonicalize: "map asciiLower (canonicalize upper a) = map asciiLower a"
  by (induction a arbitrary: upper) (simp_all add: asciiLower_canon_char Let_def)

lemma canonicalMIMEHeaderKey_name:
  assumes "canonicalMIMEHeaderKey a = (key, True)"
  shows "canonicalName key"
proof (cases "List.member a (CHR '' '')")
  case True
  with assms have k: "key = a"
    by (auto simp: canonicalMIMEHeaderKey_def split: if_splits)
  from True have "CHR '' '' \<in> set a"
    by simp
  then have "asciiLower (CHR '' '') \<in> set (map asciiLower a)"
    by simp
  moreover have "asciiLower (CHR '' '') = CHR '' ''"
    by code_simp
  ultimately have "CHR '' '' \<in> set (map asciiLower a)"
    by simp
  then have "map asciiLower a \<noteq> ''content-length''" "map asciiLower a \<noteq> ''x-unix-micro''"
    by auto
  with k show ?thesis
    by (simp add: canonicalName_def)
next
  case False
  with assms have k: "key = canonicalize True a"
    by (auto simp: canonicalMIMEHeaderKey_def split: if_splits)
  have c1: "canonicalize True ''content-length'' = ''Content-Length''"
    by code_simp
  have c2: "canonicalize True ''x-unix-micro'' = ''X-Unix-Micro''"
    by code_simp
  show ?thesis
    unfolding canonicalName_def k lower_canonicalize
    using canonicalize_lower [of True a] c1 c2 by metis
qed

lemma appendValue_names:
  "list_all (\<lambda>kv. P (fst kv)) m \<Longrightarrow> P key \<Longrightarrow>
     list_all (\<lambda>kv. P (fst kv)) (appendValue m key v)"
  by (induction m key v rule: appendValue.induct) auto

lemma readFields_names:
  "list_all (\<lambda>kv. canonicalName (fst kv)) m \<Longrightarrow>
     list_all (\<lambda>kv. canonicalName (fst kv)) (fst (readFields m s))"
proof (induction m s rule: readFields.induct)
  case (1 m s)
  show ?case
  proof (cases "ReadLine s")
    case None
    with "1.prems" show ?thesis
      by (simp add: readFields.simps [of m s])
  next
    case (Some p)
    obtain line rest where p: "p = (line, rest)"
      by (cases p)
    show ?thesis
    proof (cases "line = [] \<or> \<not> List.member line (CHR '':'')")
      case True
      with "1.prems" Some p show ?thesis
        by (auto simp: readFields.simps [of m s])
    next
      case False
      obtain kv rest' where c: "readContinuation (trim line) rest = (kv, rest')"
        by (cases "readContinuation (trim line) rest")
      define k where "k = takeWhile (\<lambda>c. c \<noteq> CHR '':'') kv"
      define v where "v = drop (length k + 1) kv"
      obtain key ok where ck: "canonicalMIMEHeaderKey k = (key, ok)"
        by (cases "canonicalMIMEHeaderKey k")
      show ?thesis
      proof (cases "ok \<and> list_all validHeaderValueByte v")
        case n: False
        with "1.prems" Some p False c ck show ?thesis
          by (auto simp: readFields.simps [of m s] Let_def k_def v_def)
      next
        case y: True
        with ck have "canonicalName key"
          by (auto intro: canonicalMIMEHeaderKey_name)
        with "1.prems" have a: "list_all (\<lambda>kv. canonicalName (fst kv))
            (appendValue m key (dropWhile isBlank v))"
          by (rule appendValue_names)
        from False y have f: "line \<noteq> []" "List.member line (CHR '':'')" "ok"
          "list_all validHeaderValueByte v"
          by auto
        have "readFields m s = readFields (appendValue m key (dropWhile isBlank v)) rest'"
          using Some p f c ck by (simp add: readFields.simps [of m s] Let_def k_def v_def)
        moreover have "list_all (\<lambda>kv. canonicalName (fst kv))
            (fst (readFields (appendValue m key (dropWhile isBlank v)) rest'))"
          using "1.IH" [OF Some p [symmetric] f(1) _ c [symmetric] k_def v_def ck [symmetric] _ _ a]
            f by simp
        ultimately show ?thesis
          by simp
      qed
    qed
  qed
qed

lemma textprotoReadMIMEHeader_names:
  "list_all (\<lambda>kv. canonicalName (fst kv)) (fst (textprotoReadMIMEHeader s))"
  using readFields_names [of "[]" s] by (simp add: textprotoReadMIMEHeader_def)

subsection \<open>A text that holds another text\<close>

lemma HasPrefix_append: "HasPrefix (p @ s) p"
  by (simp add: HasPrefix_def)

lemma Contains_append: "Contains (xs @ sub @ ys) sub"
proof (induction xs)
  case Nil
  have "HasPrefix (sub @ ys) sub"
    by (rule HasPrefix_append)
  then show ?case
    by (cases "sub @ ys") auto
next
  case (Cons x xs)
  then show ?case by simp
qed

subsection \<open>C1: the escaping of single quotes\<close>

text \<open>
  C1. \<^verbatim>\<open>escape\<close> replaces every single quote of its argument by the five characters
  \<^verbatim>\<open>'"'"'\<close> and leaves every other character as it is. For every string (with or
  without single quotes), the escaped string between two single quotes is one word of
  the shell whose value is the string itself; so is a header name and its value, escaped
  each and joined by a colon and a space. The renderer escapes the method, the URL,
  every header name, every header value and the body: these are the writes of
  \<^verbatim>\<open>writeCurlCommand\<close> into a sink that records them.
\<close>

theorem escape_quotes_for_shell:
  "escape s =
     concat (map (\<lambda>c. if c = squote then [squote, dquote, squote, dquote, squote] else [c]) s)
   \<and> shellWord Unquoted ([squote] @ escape s @ [squote]) = Some s
   \<and> shellWord Unquoted ([squote] @ escape k @ '': '' @ escape v @ [squote]) = Some (k @ '': '' @ v)
   \<and> fst (writeCurlCommand E chunkWriter [] request) =
       [''curl -X '' @ [squote] @ escape (RequestMethod request) @ [squote] @ '' '' @
          [squote] @ escape (Url E request) @ [squote] @ '' '' @ continuation,
        authorization @ continuation] @
       map (\<lambda>kv. ''-H '' @ [squote] @ escape (fst kv) @ '': '' @ escape (snd kv) @ [squote] @
                  '' '' @ continuation)
         (headerFields (visitedHeader E request)) @
       (if Valid (RequestBody request)
        then [''-d '' @ [squote] @ escape (String (RequestBody request)) @ [squote]] else []) @
       [[LF]]"
proof (intro conjI)
  show "escape s =
     concat (map (\<lambda>c. if c = squote then [squote, dquote, squote, dquote, squote] else [c]) s)"
    by (induction s) (simp_all add: escape_Nil escape_Cons)
  show "shellWord Unquoted ([squote] @ escape s @ [squote]) = Some s"
    by (simp add: shellWord_SingleQuoted_escape)
  show "shellWord Unquoted ([squote] @ escape k @ '': '' @ escape v @ [squote]) =
      Some (k @ '': '' @ v)"
    using shellWord_SingleQuoted_escape [of "k @ '': '' @ v"]
    by (simp add: escape_append escape_Cons)
  show "fst (writeCurlCommand E chunkWriter [] request) =
       [''curl -X '' @ [squote] @ escape (RequestMethod request) @ [squote] @ '' '' @
          [squote] @ escape (Url E request) @ [squote] @ '' '' @ continuation,
        authorization @ continuation] @
       map (\<lambda>kv. ''-H '' @ [squote] @ escape (fst kv) @ '': '' @ escape (snd kv) @ [squote] @
                  '' '' @ continuation)
         (headerFields (visitedHeader E request)) @
       (if Valid (RequestBody request)
        then [''-d '' @ [squote] @ escape (String (RequestBody request)) @ [squote]] else []) @
       [[LF]]"
    by (simp add: writeCurlCommand_chunkWriter commandLine_def bodyLine_def headerLines_def
        headerLine_def)
qed

subsection \<open>C2: the continuation of the lines\<close>

text \<open>
  C2. Into a sink that does not fail, the renderer writes a sequence of lines, each
  followed by the continuation (a backslash, a newline and a tab), then a final line
  followed by a plain newline, and returns no error. The continued lines are the
  \<^verbatim>\<open>curl -X\<close> line with the URL, the authorization line and one \<^verbatim>\<open>-H\<close> line for
  each header field that the header loop visits; the final line is the \<^verbatim>\<open>-d\<close> line,
  and is empty when the record has no body. For the record of the example (a \<^verbatim>\<open>POST\<close>
  to \<^verbatim>\<open>/v1/chat/completions\<close> with the body \<^verbatim>\<open>{"a":1}\<close> and no stored header) the
  writes are the \<^verbatim>\<open>-X\<close> line and the authorization line, both continued, the line
  \<^verbatim>\<open>-d '{"a":1}'\<close> and the newline: three lines.
\<close>

theorem curl_lines_continued:
  "writeCurlCommand E bufferWriter [] request =
     (concat (map (\<lambda>line. line @ [backslash, LF, TAB])
        (commandLine E request # authorization #
         map (\<lambda>kv. ''-H '' @ [squote] @ escape (fst kv) @ '': '' @ escape (snd kv) @
                    [squote] @ '' '')
           (headerFields (visitedHeader E request)))) @
      bodyLine request @ [LF], None)
   \<and> fst (writeCurlCommand E chunkWriter [] exampleRequest) =
       [''curl -X '' @ [squote] @ ''POST'' @ [squote] @ '' '' @ [squote] @
          escape (Url E exampleRequest) @ [squote] @ '' '' @ [backslash, LF, TAB],
        authorization @ [backslash, LF, TAB],
        ''-d '' @ [squote] @ [CHR ''{'', dquote, CHR ''a'', dquote] @ '':1}'' @ [squote],
        [LF]]
   \<and> fst (writeCurlCommand E bufferWriter [] exampleRequest) =
       ''curl -X '' @ [squote] @ ''POST'' @ [squote] @ '' '' @ [squote] @
          escape (Url E exampleRequest) @ [squote] @ '' '' @ [backslash, LF, TAB] @
        authorization @ [backslash, LF, TAB] @
        ''-d '' @ [squote] @ [CHR ''{'', dquote, CHR ''a'', dquote] @ '':1}'' @ [squote] @
        [LF]"
proof (intro conjI)
  have "concat (headerLines m) =
      concat (map (\<lambda>line. line @ [backslash, LF, TAB])
        (map (\<lambda>kv. ''-H '' @ [squote] @ escape (fst kv) @ '': '' @ escape (snd kv) @
                   [squote] @ '' '')
           (headerFields m)))" for m
    by (simp add: headerLines_def headerLine_def continuation_def comp_def)
  then show "writeCurlCommand E bufferWriter [] request =
     (concat (map (\<lambda>line. line @ [backslash, LF, TAB])
        (commandLine E request # authorization #
         map (\<lambda>kv. ''-H '' @ [squote] @ escape (fst kv) @ '': '' @ escape (snd kv) @
                    [squote] @ '' '')
           (headerFields (visitedHeader E request)))) @
      bodyLine request @ [LF], None)"
    by (simp add: writeCurlCommand_bufferWriter continuation_def)
  have ex: "visitedHeader E exampleRequest = []" "Valid (RequestBody exampleRequest)"
    "RequestMethod exampleRequest = ''POST''"
    "String (RequestBody exampleRequest) = [CHR ''{'', dquote, CHR ''a'', dquote] @ '':1}''"
    by (simp_all add: visitedHeader_def exampleRequest_def absent_def present_def)
  have e1: "escape ''POST'' = ''POST''"
    by (simp add: escape_Cons escape_Nil)
  have e2: "escape ([CHR ''{'', dquote, CHR ''a'', dquote] @ '':1}'') =
      [CHR ''{'', dquote, CHR ''a'', dquote] @ '':1}''"
    by (simp add: escape_Cons escape_Nil)
  show "fst (writeCurlCommand E chunkWriter [] exampleRequest) =
       [''curl -X '' @ [squote] @ ''POST'' @ [squote] @ '' '' @ [squote] @
          escape (Url E exampleRequest) @ [squote] @ '' '' @ [backslash, LF, TAB],
        authorization @ [backslash, LF, TAB],
        ''-d '' @ [squote] @ [CHR ''{'', dquote, CHR ''a'', dquote] @ '':1}'' @ [squote],
        [LF]]"
    using e1 e2
    by (simp add: writeCurlCommand_chunkWriter ex commandLine_def bodyLine_def headerLines_def
        headerFields_def continuation_def)
  show "fst (writeCurlCommand E bufferWriter [] exampleRequest) =
       ''curl -X '' @ [squote] @ ''POST'' @ [squote] @ '' '' @ [squote] @
          escape (Url E exampleRequest) @ [squote] @ '' '' @ [backslash, LF, TAB] @
        authorization @ [backslash, LF, TAB] @
        ''-d '' @ [squote] @ [CHR ''{'', dquote, CHR ''a'', dquote] @ '':1}'' @ [squote] @
        [LF]"
    using e1 e2
    by (simp add: writeCurlCommand_bufferWriter ex commandLine_def bodyLine_def headerLines_def
        headerFields_def continuation_def)
qed

subsection \<open>C3: the header fields that are stripped\<close>

text \<open>
  C3, as stated, fails. The header block of \<open>spacedRequest\<close> is the line
  \<^verbatim>\<open>Content-Length : 7\<close>, with a space before the colon. The reader of the Go library
  accepts the line and keeps its name as it is written, the space included. This name
  is not the key \<^verbatim>\<open>Content-Length\<close> that the renderer deletes, so the command has the
  line \<^verbatim>\<open>-H 'Content-Length : 7'\<close> and its text holds \<^verbatim>\<open>Content-Length\<close>.
\<close>

theorem spaced_content_length_rendered:
  "Valid (RequestHeader spacedRequest)
   \<and> String (RequestHeader spacedRequest) = ''Content-Length : 7''
   \<and> ReadMIMEHeader exampleExternals (String (RequestHeader spacedRequest) @ [CR, LF, CR, LF]) =
       ([(''Content-Length '', [''7''])], None)
   \<and> fst (writeCurlCommand exampleExternals chunkWriter [] spacedRequest) =
       [commandLine exampleExternals spacedRequest @ continuation,
        authorization @ continuation,
        ''-H '' @ [squote] @ ''Content-Length : 7'' @ [squote] @ '' '' @ [backslash, LF, TAB],
        bodyLine spacedRequest, [LF]]
   \<and> Contains (fst (writeCurlCommand exampleExternals bufferWriter [] spacedRequest))
        ''Content-Length''"
proof -
  have s: "String (RequestHeader spacedRequest) = ''Content-Length : 7''"
    by (simp add: spacedRequest_def present_def)
  have c: "fst (writeCurlCommand exampleExternals chunkWriter [] spacedRequest) =
       [commandLine exampleExternals spacedRequest @ continuation,
        authorization @ continuation,
        ''-H '' @ [squote] @ ''Content-Length : 7'' @ [squote] @ '' '' @ [backslash, LF, TAB],
        bodyLine spacedRequest, [LF]]"
    by (simp add: writeCurlCommand_chunkWriter spacedRequest_visited spaced_lengthOnly_Valid headerLines_def
        headerFields_def headerLine_def continuation_def escape_Cons escape_Nil)
  have "fst (writeCurlCommand exampleExternals bufferWriter [] spacedRequest) =
      (commandLine exampleExternals spacedRequest @ continuation @ authorization @ continuation @
       ''-H '' @ [squote]) @ ''Content-Length'' @
      ('' : 7'' @ [squote] @ '' '' @ continuation @ bodyLine spacedRequest @ [LF])"
    by (simp add: writeCurlCommand_bufferWriter spacedRequest_visited headerLines_def
        headerFields_def headerLine_def escape_Cons escape_Nil)
  then have "Contains (fst (writeCurlCommand exampleExternals bufferWriter [] spacedRequest))
      ''Content-Length''"
    by (simp only: Contains_append)
  with s c spaced_lengthOnly_Valid spacedRequest_read show ?thesis
    by blast
qed

text \<open>
  C3, amended. For every record with a stored header block, the writes after the
  authorization line are the texts \<^verbatim>\<open>-H 'Name: value'\<close>, each with a space and the
  continuation, of the fields of the parsed header whose key is neither
  \<^verbatim>\<open>Content-Length\<close> nor \<^verbatim>\<open>X-Unix-Micro\<close>, in the order of the visit: no line is
  written for a field under one of these two keys. When the visit of a map visits every
  entry once, every value of every other field gives exactly one line, a field with
  several values one line for each: the fields written and the fields kept are the same
  multiset. With the reader of the Go library, no field written has a name that reads
  \<^verbatim>\<open>content-length\<close> or \<^verbatim>\<open>x-unix-micro\<close> in any case of its letters.
\<close>

theorem stripped_header_fields:
  "Valid (RequestHeader request) \<longrightarrow>
     fst (writeCurlCommand E chunkWriter [] request) =
       [commandLine E request @ continuation, authorization @ continuation] @
       map (\<lambda>kv. ''-H '' @ [squote] @ escape (fst kv) @ '': '' @ escape (snd kv) @ [squote] @
                  '' '' @ [backslash, LF, TAB])
         (headerFields (rangeOrder E
            (filter (\<lambda>kv. fst kv \<noteq> ''Content-Length'' \<and> fst kv \<noteq> ''X-Unix-Micro'')
               (parsedHeader E request)))) @
       (if Valid (RequestBody request) then [bodyLine request] else []) @ [[LF]]
     \<and> ((\<forall>m. mset (rangeOrder E m) = mset m) \<longrightarrow>
          mset (headerFields (rangeOrder E
            (filter (\<lambda>kv. fst kv \<noteq> ''Content-Length'' \<and> fst kv \<noteq> ''X-Unix-Micro'')
               (parsedHeader E request)))) =
            filter_mset (\<lambda>kv. fst kv \<noteq> ''Content-Length'' \<and> fst kv \<noteq> ''X-Unix-Micro'')
              (mset (headerFields (parsedHeader E request)))
          \<and> list_all (\<lambda>kv. fst kv \<noteq> ''Content-Length'' \<and> fst kv \<noteq> ''X-Unix-Micro'')
                (headerFields (rangeOrder E
            (filter (\<lambda>kv. fst kv \<noteq> ''Content-Length'' \<and> fst kv \<noteq> ''X-Unix-Micro'')
               (parsedHeader E request))))
          \<and> (ReadMIMEHeader E = textprotoReadMIMEHeader \<longrightarrow>
                list_all (\<lambda>kv. map asciiLower (fst kv) \<noteq> ''content-length'' \<and>
                               map asciiLower (fst kv) \<noteq> ''x-unix-micro'')
                  (headerFields (rangeOrder E
            (filter (\<lambda>kv. fst kv \<noteq> ''Content-Length'' \<and> fst kv \<noteq> ''X-Unix-Micro'')
               (parsedHeader E request))))))"
proof (intro impI conjI)
  assume v: "Valid (RequestHeader request)"
  note vis = visitedHeader_Valid [OF v, of E]
  show "fst (writeCurlCommand E chunkWriter [] request) =
       [commandLine E request @ continuation, authorization @ continuation] @
       map (\<lambda>kv. ''-H '' @ [squote] @ escape (fst kv) @ '': '' @ escape (snd kv) @ [squote] @
                  '' '' @ [backslash, LF, TAB])
         (headerFields (rangeOrder E
            (filter (\<lambda>kv. fst kv \<noteq> ''Content-Length'' \<and> fst kv \<noteq> ''X-Unix-Micro'')
               (parsedHeader E request)))) @
       (if Valid (RequestBody request) then [bodyLine request] else []) @ [[LF]]"
    by (simp add: writeCurlCommand_chunkWriter headerLines_text vis)
  assume p: "\<forall>m. mset (rangeOrder E m) = mset m"
  from v p have kept: "mset (headerFields (visitedHeader E request)) =
      filter_mset (\<lambda>kv. fst kv \<noteq> ''Content-Length'' \<and> fst kv \<noteq> ''X-Unix-Micro'')
        (mset (headerFields (parsedHeader E request)))"
    by (rule mset_visited_fields)
  then show "mset (headerFields (rangeOrder E
            (filter (\<lambda>kv. fst kv \<noteq> ''Content-Length'' \<and> fst kv \<noteq> ''X-Unix-Micro'')
               (parsedHeader E request)))) =
      filter_mset (\<lambda>kv. fst kv \<noteq> ''Content-Length'' \<and> fst kv \<noteq> ''X-Unix-Micro'')
        (mset (headerFields (parsedHeader E request)))"
    by (simp only: vis)
  from kept have s: "set (headerFields (visitedHeader E request)) =
      set_mset (filter_mset (\<lambda>kv. fst kv \<noteq> ''Content-Length'' \<and> fst kv \<noteq> ''X-Unix-Micro'')
        (mset (headerFields (parsedHeader E request))))"
    by (metis set_mset_mset)
  then have n: "list_all (\<lambda>kv. fst kv \<noteq> ''Content-Length'' \<and> fst kv \<noteq> ''X-Unix-Micro'')
      (headerFields (visitedHeader E request))"
    by (simp add: list_all_iff)
  then show "list_all (\<lambda>kv. fst kv \<noteq> ''Content-Length'' \<and> fst kv \<noteq> ''X-Unix-Micro'')
      (headerFields (rangeOrder E
            (filter (\<lambda>kv. fst kv \<noteq> ''Content-Length'' \<and> fst kv \<noteq> ''X-Unix-Micro'')
               (parsedHeader E request))))"
    by (simp only: vis)
  assume r: "ReadMIMEHeader E = textprotoReadMIMEHeader"
  have "list_all (\<lambda>kv. canonicalName (fst kv)) (parsedHeader E request)"
    unfolding parsedHeader_def r by (rule textprotoReadMIMEHeader_names)
  then have "list_all (\<lambda>kv. canonicalName (fst kv)) (headerFields (parsedHeader E request))"
    by (rule headerFields_names)
  with s have "list_all (\<lambda>kv. canonicalName (fst kv)) (headerFields (visitedHeader E request))"
    by (simp add: list_all_iff)
  with n have "list_all (\<lambda>kv. map asciiLower (fst kv) \<noteq> ''content-length'' \<and>
                               map asciiLower (fst kv) \<noteq> ''x-unix-micro'')
                  (headerFields (visitedHeader E request))"
    by (auto simp: list_all_iff canonicalName_def)
  then show "list_all (\<lambda>kv. map asciiLower (fst kv) \<noteq> ''content-length'' \<and>
                               map asciiLower (fst kv) \<noteq> ''x-unix-micro'')
                  (headerFields (rangeOrder E
            (filter (\<lambda>kv. fst kv \<noteq> ''Content-Length'' \<and> fst kv \<noteq> ''X-Unix-Micro'')
               (parsedHeader E request))))"
    by (simp only: vis)
qed

text \<open>
  The header block of \<open>headerRequest\<close> holds \<^verbatim>\<open>content-length\<close>, \<^verbatim>\<open>Accept\<close>,
  \<^verbatim>\<open>X-Unix-Micro\<close> and \<^verbatim>\<open>accept\<close>; the command has the two \<^verbatim>\<open>Accept\<close> lines only,
  the second with its single quote escaped.
\<close>

theorem stripped_header_fields_witness:
  "Valid (RequestHeader headerRequest)
   \<and> (\<forall>m. mset (rangeOrder exampleExternals m) = mset m)
   \<and> ReadMIMEHeader exampleExternals = textprotoReadMIMEHeader
   \<and> parsedHeader exampleExternals headerRequest =
       [(''Content-Length'', [''7'']),
        (''Accept'', [''text/plain'', [CHR ''i'', CHR ''t'', squote, CHR ''s'']]),
        (''X-Unix-Micro'', [''1720000000000000''])]
   \<and> fst (writeCurlCommand exampleExternals chunkWriter [] headerRequest) =
       [commandLine exampleExternals headerRequest @ continuation,
        authorization @ continuation,
        ''-H '' @ [squote] @ ''Accept: text/plain'' @ [squote] @ '' '' @ [backslash, LF, TAB],
        ''-H '' @ [squote] @ ''Accept: it'' @ [squote, dquote, squote, dquote, squote] @ ''s'' @
          [squote] @ '' '' @ [backslash, LF, TAB],
        bodyLine headerRequest, [LF]]
   \<and> list_all (\<lambda>kv. map asciiLower (fst kv) \<noteq> ''content-length'' \<and>
                      map asciiLower (fst kv) \<noteq> ''x-unix-micro'')
         (headerFields (rangeOrder exampleExternals
            (filter (\<lambda>kv. fst kv \<noteq> ''Content-Length'' \<and> fst kv \<noteq> ''X-Unix-Micro'')
               (parsedHeader exampleExternals headerRequest))))"
proof -
  have p: "\<forall>m. mset (rangeOrder exampleExternals m) = mset m"
    by (simp add: rangeOrder_example)
  have g: "ReadMIMEHeader exampleExternals = textprotoReadMIMEHeader"
    by (simp add: exampleExternals_def)
  have r: "parsedHeader exampleExternals headerRequest =
       [(''Content-Length'', [''7'']),
        (''Accept'', [''text/plain'', [CHR ''i'', CHR ''t'', squote, CHR ''s'']]),
        (''X-Unix-Micro'', [''1720000000000000''])]"
    by (simp add: parsedHeader_def headerRequest_read)
  have v: "Valid (RequestHeader headerRequest)" "Valid (RequestBody headerRequest)"
    by (rule example_Valid)+
  note t = stripped_header_fields [where request = headerRequest and E = exampleExternals]
  from t v(1) have "fst (writeCurlCommand exampleExternals chunkWriter [] headerRequest) =
       [commandLine exampleExternals headerRequest @ continuation,
        authorization @ continuation] @
       map (\<lambda>kv. ''-H '' @ [squote] @ escape (fst kv) @ '': '' @ escape (snd kv) @ [squote] @
                  '' '' @ [backslash, LF, TAB])
         (headerFields (rangeOrder exampleExternals
            (filter (\<lambda>kv. fst kv \<noteq> ''Content-Length'' \<and> fst kv \<noteq> ''X-Unix-Micro'')
               (parsedHeader exampleExternals headerRequest)))) @
       (if Valid (RequestBody headerRequest) then [bodyLine headerRequest] else []) @ [[LF]]"
    by blast
  then have c: "fst (writeCurlCommand exampleExternals chunkWriter [] headerRequest) =
       [commandLine exampleExternals headerRequest @ continuation,
        authorization @ continuation,
        ''-H '' @ [squote] @ ''Accept: text/plain'' @ [squote] @ '' '' @ [backslash, LF, TAB],
        ''-H '' @ [squote] @ ''Accept: it'' @ [squote, dquote, squote, dquote, squote] @ ''s'' @
          [squote] @ '' '' @ [backslash, LF, TAB],
        bodyLine headerRequest, [LF]]"
    by (simp add: r rangeOrder_example headerFields_def v escape_Cons escape_Nil)
  from t v(1) p g have n: "list_all (\<lambda>kv. map asciiLower (fst kv) \<noteq> ''content-length'' \<and>
                      map asciiLower (fst kv) \<noteq> ''x-unix-micro'')
         (headerFields (rangeOrder exampleExternals
            (filter (\<lambda>kv. fst kv \<noteq> ''Content-Length'' \<and> fst kv \<noteq> ''X-Unix-Micro'')
               (parsedHeader exampleExternals headerRequest))))"
    by blast
  from v(1) p g r c n show ?thesis
    by blast
qed

subsection \<open>C9: the header block is read when it is present\<close>

text \<open>
  C9. When the header block of the record is present, the reader is given the block
  followed by \<^verbatim>\<open>"\r\n\r\n"\<close>, and the \<^verbatim>\<open>-H\<close> lines are those of the header it returns
  for this text, without the two stripped fields: a reader that returns the same for
  this text gives the same run. When the header block is absent, no \<^verbatim>\<open>-H\<close> line is
  written after the authorization line, and neither the reader nor the visit of a map
  has a part in the run.
\<close>

theorem header_block_read_when_present:
  "(Valid (RequestHeader request) \<longrightarrow>
      fst (writeCurlCommand E chunkWriter [] request) =
        [commandLine E request @ continuation, authorization @ continuation] @
        headerLines (rangeOrder E (Del (Del
           (fst (ReadMIMEHeader E (String (RequestHeader request) @ [CR, LF, CR, LF])))
           ''Content-Length'') ''X-Unix-Micro'')) @
        (if Valid (RequestBody request) then [bodyLine request] else []) @ [[LF]]
      \<and> (reader (String (RequestHeader request) @ [CR, LF, CR, LF]) =
             ReadMIMEHeader E (String (RequestHeader request) @ [CR, LF, CR, LF]) \<longrightarrow>
           writeCurlCommand (E\<lparr>ReadMIMEHeader := reader\<rparr>) w s request =
             writeCurlCommand E w s request))
   \<and> (\<not> Valid (RequestHeader request) \<longrightarrow>
        fst (writeCurlCommand E chunkWriter [] request) =
          [commandLine E request @ continuation, authorization @ continuation] @
          (if Valid (RequestBody request) then [bodyLine request] else []) @ [[LF]]
        \<and> writeCurlCommand (E\<lparr>ReadMIMEHeader := reader, rangeOrder := order\<rparr>) w s request =
             writeCurlCommand E w s request)"
proof (intro conjI impI)
  assume v: "Valid (RequestHeader request)"
  then show "fst (writeCurlCommand E chunkWriter [] request) =
        [commandLine E request @ continuation, authorization @ continuation] @
        headerLines (rangeOrder E (Del (Del
           (fst (ReadMIMEHeader E (String (RequestHeader request) @ [CR, LF, CR, LF])))
           ''Content-Length'') ''X-Unix-Micro'')) @
        (if Valid (RequestBody request) then [bodyLine request] else []) @ [[LF]]"
    by (simp add: writeCurlCommand_chunkWriter visitedHeader_def parsedHeader_def)
  assume "reader (String (RequestHeader request) @ [CR, LF, CR, LF]) =
      ReadMIMEHeader E (String (RequestHeader request) @ [CR, LF, CR, LF])"
  with v show "writeCurlCommand (E\<lparr>ReadMIMEHeader := reader\<rparr>) w s request =
      writeCurlCommand E w s request"
    by (simp add: writeCurlCommand_parts visitedHeader_def parsedHeader_def commandLine_def)
next
  assume n: "\<not> Valid (RequestHeader request)"
  then show "fst (writeCurlCommand E chunkWriter [] request) =
          [commandLine E request @ continuation, authorization @ continuation] @
          (if Valid (RequestBody request) then [bodyLine request] else []) @ [[LF]]"
    by (simp add: writeCurlCommand_chunkWriter visitedHeader_def headerLines_def
        headerFields_def)
  from n show "writeCurlCommand (E\<lparr>ReadMIMEHeader := reader, rangeOrder := order\<rparr>) w s request =
      writeCurlCommand E w s request"
    by (simp add: writeCurlCommand_parts visitedHeader_def commandLine_def)
qed

text \<open>The two cases, on \<open>headerRequest\<close> and on the record of the example.\<close>

theorem header_block_read_when_present_witness:
  "Valid (RequestHeader headerRequest) \<and> \<not> Valid (RequestHeader exampleRequest)
   \<and> ReadMIMEHeader exampleExternals (String (RequestHeader headerRequest) @ [CR, LF, CR, LF]) =
       ([(''Content-Length'', [''7'']),
         (''Accept'', [''text/plain'', [CHR ''i'', CHR ''t'', squote, CHR ''s'']]),
         (''X-Unix-Micro'', [''1720000000000000''])], None)
   \<and> fst (writeCurlCommand exampleExternals chunkWriter [] headerRequest) =
       [commandLine exampleExternals headerRequest @ continuation,
        authorization @ continuation,
        headerLine ''Accept'' ''text/plain'',
        headerLine ''Accept'' [CHR ''i'', CHR ''t'', squote, CHR ''s''],
        bodyLine headerRequest, [LF]]
   \<and> fst (writeCurlCommand exampleExternals chunkWriter [] exampleRequest) =
       [commandLine exampleExternals exampleRequest @ continuation,
        authorization @ continuation, bodyLine exampleRequest, [LF]]"
proof -
  have d: "Del (Del [(''Content-Length'', [''7'']),
        (''Accept'', [''text/plain'', [CHR ''i'', CHR ''t'', squote, CHR ''s'']]),
        (''X-Unix-Micro'', [''1720000000000000''])] ''Content-Length'') ''X-Unix-Micro'' =
      [(''Accept'', [''text/plain'', [CHR ''i'', CHR ''t'', squote, CHR ''s'']])]"
    by code_simp
  from header_block_read_when_present [where request = headerRequest and E = exampleExternals
         and reader = "ReadMIMEHeader exampleExternals" and w = chunkWriter and s = "[]"
         and order = "rangeOrder exampleExternals"]
       header_block_read_when_present [where request = exampleRequest and E = exampleExternals
         and reader = "ReadMIMEHeader exampleExternals" and w = chunkWriter and s = "[]"
         and order = "rangeOrder exampleExternals"]
       example_Valid
  show ?thesis
    by (simp add: headerRequest_read d rangeOrder_example headerLines_def headerFields_def)
qed

subsection \<open>C8: a header block that the reader refuses\<close>

text \<open>
  C8, as stated, fails. The header block of \<open>brokenRequest\<close> is a field
  \<^verbatim>\<open>Accept: text/plain\<close> and a line without a colon. The reader of the Go library
  returns a \<^verbatim>\<open>ProtocolError\<close> together with the header it has read so far; the
  renderer drops the error and writes the line \<^verbatim>\<open>-H 'Accept: text/plain'\<close>, which it
  does not write for the same record without header block.
\<close>

theorem parse_failure_keeps_fields_read:
  "Valid (RequestHeader brokenRequest)
   \<and> ReadMIMEHeader exampleExternals (String (RequestHeader brokenRequest) @ [CR, LF, CR, LF]) =
       ([(''Accept'', [''text/plain''])],
        Some (ProtocolError ''malformed MIME header: missing colon''))
   \<and> fst (writeCurlCommand exampleExternals chunkWriter [] brokenRequest) =
       [commandLine exampleExternals brokenRequest @ continuation,
        authorization @ continuation,
        ''-H '' @ [squote] @ ''Accept: text/plain'' @ [squote] @ '' '' @ [backslash, LF, TAB],
        bodyLine brokenRequest, [LF]]
   \<and> fst (writeCurlCommand exampleExternals chunkWriter []
            (brokenRequest\<lparr>RequestHeader := absent\<rparr>)) =
       [commandLine exampleExternals brokenRequest @ continuation,
        authorization @ continuation, bodyLine brokenRequest, [LF]]
   \<and> writeCurlCommand exampleExternals chunkWriter [] brokenRequest \<noteq>
       writeCurlCommand exampleExternals chunkWriter [] (brokenRequest\<lparr>RequestHeader := absent\<rparr>)"
proof -
  have a: "visitedHeader exampleExternals (brokenRequest\<lparr>RequestHeader := absent\<rparr>) = []"
    "commandLine exampleExternals (brokenRequest\<lparr>RequestHeader := absent\<rparr>) =
       commandLine exampleExternals brokenRequest"
    "bodyLine (brokenRequest\<lparr>RequestHeader := absent\<rparr>) = bodyLine brokenRequest"
    by (simp_all add: visitedHeader_def absent_def commandLine_def bodyLine_def
        exampleExternals_def)
  show ?thesis
    by (simp add: example_Valid brokenRequest_read writeCurlCommand_chunkWriter
        brokenRequest_visited a headerLines_def headerFields_def headerLine_def continuation_def
        escape_Cons escape_Nil)
qed

text \<open>
  C8, amended. A failure of the reader never ends the rendering and is never returned:
  the run is the one of a reader that returns the same header and no error, and with a
  sink that does not fail the renderer returns no error. The header that the reader
  returns with its error is rendered as any other: its fields give their
  \<^verbatim>\<open>-H 'Name: value'\<close> lines, those under the keys \<^verbatim>\<open>Content-Length\<close> and
  \<^verbatim>\<open>X-Unix-Micro\<close> apart. When the visit of a map visits every entry once and the URL
  of the record does not depend on its header block, the command is the one of the same
  record without header block exactly when every field of the returned header is under
  one of these two keys, as it is when the header is empty.
\<close>

theorem parse_error_dropped:
  "writeCurlCommand E w s request =
     writeCurlCommand (E\<lparr>ReadMIMEHeader := \<lambda>text. (fst (ReadMIMEHeader E text), None)\<rparr>)
       w s request
   \<and> snd (writeCurlCommand E bufferWriter s request) = None
   \<and> (Valid (RequestHeader request) \<longrightarrow>
        fst (writeCurlCommand E chunkWriter [] request) =
          [commandLine E request @ continuation, authorization @ continuation] @
          map (\<lambda>kv. ''-H '' @ [squote] @ escape (fst kv) @ '': '' @ escape (snd kv) @ [squote] @
                     '' '' @ [backslash, LF, TAB])
            (headerFields (rangeOrder E
               (filter (\<lambda>kv. fst kv \<noteq> ''Content-Length'' \<and> fst kv \<noteq> ''X-Unix-Micro'')
                  (fst (ReadMIMEHeader E (String (RequestHeader request) @ [CR, LF, CR, LF])))))) @
          (if Valid (RequestBody request) then [bodyLine request] else []) @ [[LF]])
   \<and> (Valid (RequestHeader request) \<and> (\<forall>m. mset (rangeOrder E m) = mset m) \<and>
        Url E (request\<lparr>RequestHeader := absent\<rparr>) = Url E request \<longrightarrow>
        (list_all (\<lambda>kv. fst kv = ''Content-Length'' \<or> fst kv = ''X-Unix-Micro'')
             (headerFields
                (fst (ReadMIMEHeader E (String (RequestHeader request) @ [CR, LF, CR, LF])))) \<longrightarrow>
           writeCurlCommand E w s request =
             writeCurlCommand E w s (request\<lparr>RequestHeader := absent\<rparr>))
        \<and> (fst (writeCurlCommand E chunkWriter [] request) =
              fst (writeCurlCommand E chunkWriter [] (request\<lparr>RequestHeader := absent\<rparr>)) \<longleftrightarrow>
            list_all (\<lambda>kv. fst kv = ''Content-Length'' \<or> fst kv = ''X-Unix-Micro'')
             (headerFields
                (fst (ReadMIMEHeader E (String (RequestHeader request) @ [CR, LF, CR, LF])))))
        \<and> (fst (writeCurlCommand E bufferWriter [] request) =
              fst (writeCurlCommand E bufferWriter [] (request\<lparr>RequestHeader := absent\<rparr>)) \<longleftrightarrow>
            list_all (\<lambda>kv. fst kv = ''Content-Length'' \<or> fst kv = ''X-Unix-Micro'')
             (headerFields
                (fst (ReadMIMEHeader E (String (RequestHeader request) @ [CR, LF, CR, LF]))))))"
proof (intro conjI impI)
  show "writeCurlCommand E w s request =
     writeCurlCommand (E\<lparr>ReadMIMEHeader := \<lambda>text. (fst (ReadMIMEHeader E text), None)\<rparr>)
       w s request"
    by (simp add: writeCurlCommand_parts visitedHeader_def parsedHeader_def commandLine_def)
  show "snd (writeCurlCommand E bufferWriter s request) = None"
    by (simp add: writeCurlCommand_bufferWriter)
next
  assume v: "Valid (RequestHeader request)"
  show "fst (writeCurlCommand E chunkWriter [] request) =
          [commandLine E request @ continuation, authorization @ continuation] @
          map (\<lambda>kv. ''-H '' @ [squote] @ escape (fst kv) @ '': '' @ escape (snd kv) @ [squote] @
                     '' '' @ [backslash, LF, TAB])
            (headerFields (rangeOrder E
               (filter (\<lambda>kv. fst kv \<noteq> ''Content-Length'' \<and> fst kv \<noteq> ''X-Unix-Micro'')
                  (fst (ReadMIMEHeader E (String (RequestHeader request) @ [CR, LF, CR, LF])))))) @
          (if Valid (RequestBody request) then [bodyLine request] else []) @ [[LF]]"
    using visitedHeader_Valid [OF v, of E]
    by (simp add: writeCurlCommand_chunkWriter headerLines_text parsedHeader_def)
next
  assume h: "Valid (RequestHeader request) \<and> (\<forall>m. mset (rangeOrder E m) = mset m) \<and>
        Url E (request\<lparr>RequestHeader := absent\<rparr>) = Url E request"
  then have "headerFields (visitedHeader E request) = [] \<longleftrightarrow>
         list_all (\<lambda>kv. fst kv = ''Content-Length'' \<or> fst kv = ''X-Unix-Micro'')
           (headerFields (parsedHeader E request))"
    by (intro visited_fields_Nil) simp_all
  then have n: "list_all (\<lambda>kv. fst kv = ''Content-Length'' \<or> fst kv = ''X-Unix-Micro'')
             (headerFields
                (fst (ReadMIMEHeader E (String (RequestHeader request) @ [CR, LF, CR, LF])))) \<longleftrightarrow>
      headerFields (visitedHeader E request) = []"
    by (simp only: parsedHeader_def)
  have a: "visitedHeader E (request\<lparr>RequestHeader := absent\<rparr>) = []"
    by (simp add: visitedHeader_def absent_def)
  from h have c: "commandLine E (request\<lparr>RequestHeader := absent\<rparr>) = commandLine E request"
    by (simp add: commandLine_def)
  have b: "bodyLine (request\<lparr>RequestHeader := absent\<rparr>) = bodyLine request"
    by (simp add: bodyLine_def)
  have "fst (writeCurlCommand E chunkWriter [] request) =
              fst (writeCurlCommand E chunkWriter [] (request\<lparr>RequestHeader := absent\<rparr>)) \<longleftrightarrow>
            headerFields (visitedHeader E request) = []"
    by (simp add: writeCurlCommand_chunkWriter a b c headerLines_text headerFields_def)
  then show "fst (writeCurlCommand E chunkWriter [] request) =
              fst (writeCurlCommand E chunkWriter [] (request\<lparr>RequestHeader := absent\<rparr>)) \<longleftrightarrow>
            list_all (\<lambda>kv. fst kv = ''Content-Length'' \<or> fst kv = ''X-Unix-Micro'')
             (headerFields
                (fst (ReadMIMEHeader E (String (RequestHeader request) @ [CR, LF, CR, LF]))))"
    by (simp only: n)
  have "fst (writeCurlCommand E bufferWriter [] request) =
              fst (writeCurlCommand E bufferWriter [] (request\<lparr>RequestHeader := absent\<rparr>)) \<longleftrightarrow>
            concat (headerLines (visitedHeader E request)) = []"
    by (simp add: writeCurlCommand_bufferWriter a b c headerLines_def headerFields_def)
  then show "fst (writeCurlCommand E bufferWriter [] request) =
              fst (writeCurlCommand E bufferWriter [] (request\<lparr>RequestHeader := absent\<rparr>)) \<longleftrightarrow>
            list_all (\<lambda>kv. fst kv = ''Content-Length'' \<or> fst kv = ''X-Unix-Micro'')
             (headerFields
                (fst (ReadMIMEHeader E (String (RequestHeader request) @ [CR, LF, CR, LF]))))"
    by (simp only: concat_headerLines_Nil n)
  assume "list_all (\<lambda>kv. fst kv = ''Content-Length'' \<or> fst kv = ''X-Unix-Micro'')
             (headerFields
                (fst (ReadMIMEHeader E (String (RequestHeader request) @ [CR, LF, CR, LF]))))"
  then have "headerFields (visitedHeader E request) = []"
    by (simp only: n)
  then have "writeHeaders w s' (visitedHeader E request) = (s', None)" for s'
    by (rule writeHeaders_no_fields)
  then show "writeCurlCommand E w s request =
      writeCurlCommand E w s (request\<lparr>RequestHeader := absent\<rparr>)"
    by (simp add: writeCurlCommand_parts a b c cong: if_cong)
qed

text \<open>
  The header block of \<open>lengthOnlyRequest\<close> is refused at its second line and the
  reader returns the field \<^verbatim>\<open>Content-Length\<close>; the one of \<open>malformedRequest\<close> is refused
  at its first line and the reader returns an empty header. Both commands are the one of
  the record without header block. The one of \<open>brokenRequest\<close> is not: it has the line
  of the field read before the failure.
\<close>

theorem parse_error_dropped_witness:
  "(\<forall>m. mset (rangeOrder exampleExternals m) = mset m)
   \<and> Valid (RequestHeader lengthOnlyRequest)
   \<and> Url exampleExternals (lengthOnlyRequest\<lparr>RequestHeader := absent\<rparr>) =
       Url exampleExternals lengthOnlyRequest
   \<and> ReadMIMEHeader exampleExternals
       (String (RequestHeader lengthOnlyRequest) @ [CR, LF, CR, LF]) =
       ([(''Content-Length'', [''7''])],
        Some (ProtocolError ''malformed MIME header: missing colon''))
   \<and> writeCurlCommand exampleExternals bufferWriter [] lengthOnlyRequest =
       writeCurlCommand exampleExternals bufferWriter []
         (lengthOnlyRequest\<lparr>RequestHeader := absent\<rparr>)
   \<and> Valid (RequestHeader malformedRequest)
   \<and> Url exampleExternals (malformedRequest\<lparr>RequestHeader := absent\<rparr>) =
       Url exampleExternals malformedRequest
   \<and> ReadMIMEHeader exampleExternals
       (String (RequestHeader malformedRequest) @ [CR, LF, CR, LF]) =
       ([], Some (ProtocolError ''malformed MIME header: missing colon''))
   \<and> writeCurlCommand exampleExternals bufferWriter [] malformedRequest =
       writeCurlCommand exampleExternals bufferWriter []
         (malformedRequest\<lparr>RequestHeader := absent\<rparr>)
   \<and> Valid (RequestHeader brokenRequest)
   \<and> Url exampleExternals (brokenRequest\<lparr>RequestHeader := absent\<rparr>) =
       Url exampleExternals brokenRequest
   \<and> ReadMIMEHeader exampleExternals
       (String (RequestHeader brokenRequest) @ [CR, LF, CR, LF]) =
       ([(''Accept'', [''text/plain''])],
        Some (ProtocolError ''malformed MIME header: missing colon''))
   \<and> fst (writeCurlCommand exampleExternals bufferWriter [] brokenRequest) \<noteq>
       fst (writeCurlCommand exampleExternals bufferWriter []
         (brokenRequest\<lparr>RequestHeader := absent\<rparr>))
   \<and> fst (writeCurlCommand exampleExternals chunkWriter [] brokenRequest) =
       [commandLine exampleExternals brokenRequest @ continuation,
        authorization @ continuation,
        ''-H '' @ [squote] @ ''Accept: text/plain'' @ [squote] @ '' '' @ [backslash, LF, TAB],
        bodyLine brokenRequest, [LF]]
   \<and> snd (writeCurlCommand exampleExternals bufferWriter [] brokenRequest) = None"
proof -
  have p: "\<forall>m. mset (rangeOrder exampleExternals m) = mset m"
    by (simp add: rangeOrder_example)
  have v: "Valid (RequestHeader lengthOnlyRequest)" "Valid (RequestHeader malformedRequest)"
    "Valid (RequestHeader brokenRequest)" "Valid (RequestBody brokenRequest)"
    by (simp_all add: spaced_lengthOnly_Valid example_Valid)
  note u = absent_header_Url [of lengthOnlyRequest] absent_header_Url [of malformedRequest]
    absent_header_Url [of brokenRequest]
  note l = parse_error_dropped
    [where E = exampleExternals and w = bufferWriter and s = "[]" and request = lengthOnlyRequest]
  have "list_all (\<lambda>kv. fst kv = ''Content-Length'' \<or> fst kv = ''X-Unix-Micro'')
      (headerFields (fst (ReadMIMEHeader exampleExternals
         (String (RequestHeader lengthOnlyRequest) @ [CR, LF, CR, LF]))))"
    by (simp add: lengthOnlyRequest_read headerFields_def)
  with l v(1) p u(1)
  have el: "writeCurlCommand exampleExternals bufferWriter [] lengthOnlyRequest =
       writeCurlCommand exampleExternals bufferWriter []
         (lengthOnlyRequest\<lparr>RequestHeader := absent\<rparr>)"
    by blast
  note m = parse_error_dropped
    [where E = exampleExternals and w = bufferWriter and s = "[]" and request = malformedRequest]
  have "list_all (\<lambda>kv. fst kv = ''Content-Length'' \<or> fst kv = ''X-Unix-Micro'')
      (headerFields (fst (ReadMIMEHeader exampleExternals
         (String (RequestHeader malformedRequest) @ [CR, LF, CR, LF]))))"
    by (simp add: malformedRequest_read headerFields_def)
  with m v(2) p u(2)
  have em: "writeCurlCommand exampleExternals bufferWriter [] malformedRequest =
       writeCurlCommand exampleExternals bufferWriter []
         (malformedRequest\<lparr>RequestHeader := absent\<rparr>)"
    by blast
  note b = parse_error_dropped
    [where E = exampleExternals and w = bufferWriter and s = "[]" and request = brokenRequest]
  have "\<not> list_all (\<lambda>kv. fst kv = ''Content-Length'' \<or> fst kv = ''X-Unix-Micro'')
      (headerFields (fst (ReadMIMEHeader exampleExternals
         (String (RequestHeader brokenRequest) @ [CR, LF, CR, LF]))))"
    by (simp add: brokenRequest_read headerFields_def)
  with b v(3) p u(3)
  have nb: "fst (writeCurlCommand exampleExternals bufferWriter [] brokenRequest) \<noteq>
       fst (writeCurlCommand exampleExternals bufferWriter []
         (brokenRequest\<lparr>RequestHeader := absent\<rparr>))"
    by blast
  from b v(3) have "fst (writeCurlCommand exampleExternals chunkWriter [] brokenRequest) =
          [commandLine exampleExternals brokenRequest @ continuation,
           authorization @ continuation] @
          map (\<lambda>kv. ''-H '' @ [squote] @ escape (fst kv) @ '': '' @ escape (snd kv) @ [squote] @
                     '' '' @ [backslash, LF, TAB])
            (headerFields (rangeOrder exampleExternals
               (filter (\<lambda>kv. fst kv \<noteq> ''Content-Length'' \<and> fst kv \<noteq> ''X-Unix-Micro'')
                  (fst (ReadMIMEHeader exampleExternals
                     (String (RequestHeader brokenRequest) @ [CR, LF, CR, LF])))))) @
          (if Valid (RequestBody brokenRequest) then [bodyLine brokenRequest] else []) @ [[LF]]"
    by blast
  then have cb: "fst (writeCurlCommand exampleExternals chunkWriter [] brokenRequest) =
       [commandLine exampleExternals brokenRequest @ continuation,
        authorization @ continuation,
        ''-H '' @ [squote] @ ''Accept: text/plain'' @ [squote] @ '' '' @ [backslash, LF, TAB],
        bodyLine brokenRequest, [LF]]"
    by (simp add: brokenRequest_read rangeOrder_example headerFields_def v escape_Cons escape_Nil)
  from b have sb: "snd (writeCurlCommand exampleExternals bufferWriter [] brokenRequest) = None"
    by blast
  from p v(1) u(1) lengthOnlyRequest_read el v(2) u(2) malformedRequest_read em
    v(3) u(3) brokenRequest_read nb cb sb
  show ?thesis
    by blast
qed

subsection \<open>C4: the authorization line\<close>




subsection \<open>C5: the name of the file\<close>











subsection \<open>C6: the escaping of HTML characters in the JSON document\<close>

lemma foldl_setFlag_escapeHTML:
  "\<not> list_ex isEscapeHtml args \<Longrightarrow> escapeHTML (foldl setFlag f args) = escapeHTML f"
proof (induction args arbitrary: f)
  case Nil
  show ?case by simp
next
  case (Cons a args)
  then show ?case
    by (cases a) (simp_all add: isEscapeHtml_def)
qed

lemma jsonEncoder_eq:
  "jsonEncoder f = \<lparr>indentPrefix = [], indentValue = ''    '', escapesHTML = escapeHTML f\<rparr>"
  by (simp add: jsonEncoder_def SetEscapeHTML_def SetIndent_def NewEncoder_def)

lemma exampleSystem_GetRequest:
  "GetRequest exampleSystem 1 c r = Inr exampleRequest"
  "GetRequest exampleSystem 2 c r = Inr modelsRequest"
  by (simp_all add: exampleSystem_def)

text \<open>
  C6, as stated, fails. \<^verbatim>\<open>json.NewEncoder\<close> escapes by default, but the run sets the
  encoder to the value of the flag \<^verbatim>\<open>--escape-html\<close>, whose registered default is
  \<^verbatim>\<open>false\<close>: without the flag the document is written with \<^verbatim>\<open><\<close> as it is, and with
  the flag it is written with the Unicode escape of \<^verbatim>\<open><\<close>.
\<close>

theorem escape_html_off_by_default_example:
  "escapesHTML NewEncoder
   \<and> \<not> escapeHTML defaultFlags
   \<and> \<not> escapesHTML (jsonEncoder (parseFlags [ArgId 1, ArgTag ''a<b'']))
   \<and> Run exampleExternals exampleSystem (parseFlags [ArgId 1, ArgTag ''a<b'']) emptyWorld =
       Returned (emptyWorld\<lparr>stdoutText := [dquote, dquote] @ '' '' @ [dquote] @ ''a<b'' @ [dquote, LF]\<rparr>)
         (exampleRequest\<lparr>Tags := [''a<b'']\<rparr>)
   \<and> Run exampleExternals exampleSystem (parseFlags [ArgId 1, ArgTag ''a<b'', ArgEscapeHtml True])
         emptyWorld =
       Returned (emptyWorld\<lparr>stdoutText := [dquote, dquote] @ '' '' @ [dquote] @ ''a'' @ [backslash] @
                   ''u003cb'' @ [dquote, LF]\<rparr>)
         (exampleRequest\<lparr>Tags := [''a<b'']\<rparr>)"
  by code_simp

text \<open>
  C6, amended. The escaping is off when the caller does not set the toggle: a command
  line without \<^verbatim>\<open>--escape-html\<close> gives an encoder that indents by four spaces and does
  not escape, and a final \<^verbatim>\<open>--escape-html\<close> sets the escaping to its value. A run in
  JSON mode encodes the record with this encoder.
\<close>

theorem escape_html_follows_flag:
  "(\<not> list_ex isEscapeHtml args \<longrightarrow>
      jsonEncoder (parseFlags args) =
        \<lparr>indentPrefix = [], indentValue = ''    '', escapesHTML = False\<rparr>)
   \<and> jsonEncoder (parseFlags (args @ [ArgEscapeHtml b])) =
        \<lparr>indentPrefix = [], indentValue = ''    '', escapesHTML = b\<rparr>
   \<and> (GetRequest S (id' f) (chatcmpl f) (requestID f) = Inr request \<and> \<not> curl f \<and>
        openOutput E S f world (annotate E f request) = Inl (out, world') \<longrightarrow>
        Run E S f world =
          (case Encode S \<lparr>indentPrefix = [], indentValue = ''    '', escapesHTML = escapeHTML f\<rparr>
                  out world' (annotate E f request) of
             (world'', Some err) \<Rightarrow> Fatal err world''
           | (world'', None) \<Rightarrow> Returned world'' (annotate E f request)))"
proof (intro conjI impI)
  assume "\<not> list_ex isEscapeHtml args"
  then show "jsonEncoder (parseFlags args) =
      \<lparr>indentPrefix = [], indentValue = ''    '', escapesHTML = False\<rparr>"
    by (simp add: jsonEncoder_eq parseFlags_def foldl_setFlag_escapeHTML defaultFlags_def)
next
  show "jsonEncoder (parseFlags (args @ [ArgEscapeHtml b])) =
      \<lparr>indentPrefix = [], indentValue = ''    '', escapesHTML = b\<rparr>"
    by (simp add: jsonEncoder_eq parseFlags_def)
next
  assume "GetRequest S (id' f) (chatcmpl f) (requestID f) = Inr request \<and> \<not> curl f \<and>
        openOutput E S f world (annotate E f request) = Inl (out, world')"
  then show "Run E S f world =
          (case Encode S \<lparr>indentPrefix = [], indentValue = ''    '', escapesHTML = escapeHTML f\<rparr>
                  out world' (annotate E f request) of
             (world'', Some err) \<Rightarrow> Fatal err world''
           | (world'', None) \<Rightarrow> Returned world'' (annotate E f request))"
    by (simp add: Run_def jsonEncoder_eq Let_def)
qed

text \<open>The run of the command line \<^verbatim>\<open>--id 1\<close>.\<close>

theorem escape_html_follows_flag_witness:
  "\<not> list_ex isEscapeHtml [ArgId 1]
   \<and> jsonEncoder (parseFlags [ArgId 1]) =
       \<lparr>indentPrefix = [], indentValue = ''    '', escapesHTML = False\<rparr>
   \<and> GetRequest exampleSystem (id' (parseFlags [ArgId 1])) (chatcmpl (parseFlags [ArgId 1]))
        (requestID (parseFlags [ArgId 1])) = Inr exampleRequest
   \<and> \<not> curl (parseFlags [ArgId 1])
   \<and> openOutput exampleExternals exampleSystem (parseFlags [ArgId 1]) emptyWorld
        (annotate exampleExternals (parseFlags [ArgId 1]) exampleRequest) = Inl (Stdout, emptyWorld)
   \<and> Run exampleExternals exampleSystem (parseFlags [ArgId 1]) emptyWorld =
       Returned (emptyWorld\<lparr>stdoutText := [dquote, dquote, LF]\<rparr>) exampleRequest"
proof -
  have n: "\<not> list_ex isEscapeHtml [ArgId 1]"
    by (simp add: isEscapeHtml_def)
  have g: "GetRequest exampleSystem (id' (parseFlags [ArgId 1])) (chatcmpl (parseFlags [ArgId 1]))
        (requestID (parseFlags [ArgId 1])) = Inr exampleRequest"
    by (simp add: parseFlags_def defaultFlags_def exampleSystem_GetRequest)
  have c: "\<not> curl (parseFlags [ArgId 1])"
    by (simp add: parseFlags_def defaultFlags_def)
  have a: "annotate exampleExternals (parseFlags [ArgId 1]) exampleRequest = exampleRequest"
    by (simp add: annotate_def parseFlags_def defaultFlags_def)
  have p: "openOutput exampleExternals exampleSystem (parseFlags [ArgId 1]) emptyWorld
        (annotate exampleExternals (parseFlags [ArgId 1]) exampleRequest) = Inl (Stdout, emptyWorld)"
    by (simp add: openOutput_def parseFlags_def defaultFlags_def)
  have e: "Encode exampleSystem \<lparr>indentPrefix = [], indentValue = ''    '', escapesHTML = False\<rparr>
      Stdout emptyWorld exampleRequest = (emptyWorld\<lparr>stdoutText := [dquote, dquote, LF]\<rparr>, None)"
    by code_simp
  have f: "escapeHTML (parseFlags [ArgId 1]) = False"
    by (simp add: parseFlags_def defaultFlags_def)
  note t = escape_html_follows_flag [where args = "[ArgId 1]" and b = True and S = exampleSystem
      and f = "parseFlags [ArgId 1]" and request = exampleRequest and E = exampleExternals
      and world = emptyWorld and out = Stdout and world' = emptyWorld]
  from t n have j: "jsonEncoder (parseFlags [ArgId 1]) =
       \<lparr>indentPrefix = [], indentValue = ''    '', escapesHTML = False\<rparr>"
    by blast
  from t g c p have "Run exampleExternals exampleSystem (parseFlags [ArgId 1]) emptyWorld =
      (case Encode exampleSystem
         \<lparr>indentPrefix = [], indentValue = ''    '', escapesHTML = escapeHTML (parseFlags [ArgId 1])\<rparr>
         Stdout emptyWorld (annotate exampleExternals (parseFlags [ArgId 1]) exampleRequest) of
       (world'', Some err) \<Rightarrow> Fatal err world''
     | (world'', None) \<Rightarrow> Returned world'' (annotate exampleExternals (parseFlags [ArgId 1]) exampleRequest))"
    by blast
  then have r: "Run exampleExternals exampleSystem (parseFlags [ArgId 1]) emptyWorld =
       Returned (emptyWorld\<lparr>stdoutText := [dquote, dquote, LF]\<rparr>) exampleRequest"
    by (simp add: a f e)
  from n j g c p r show ?thesis
    by blast
qed

subsection \<open>C7: the annotation\<close>

text \<open>
  C7. The annotation leaves a record that is not a chat as it is, whatever the flags
  are. For a chat record, \<^verbatim>\<open>--good\<close> sets the category to \<^verbatim>\<open>goodcase\<close> and, without
  it, \<^verbatim>\<open>--bad\<close> sets it to \<^verbatim>\<open>badcase\<close>, whatever it was; one or more tags replace the
  tags of the record; no other field changes, and with neither flag and no tag the
  record is as it was. A run in JSON mode that returns has annotated the record so.
\<close>

theorem annotation_of_chat_records:
  "(\<not> IsChat E request \<longrightarrow> annotate E f request = request)
   \<and> (IsChat E request \<longrightarrow>
        annotate E f request =
          request\<lparr>Category := (if goodCase f then ''goodcase''
                                else if badCase f then ''badcase'' else Category request),
                  Tags := (if tags f = [] then Tags request else tags f)\<rparr>)
   \<and> (IsChat E request \<and> \<not> goodCase f \<and> \<not> badCase f \<and> tags f = [] \<longrightarrow>
        annotate E f request = request)
   \<and> (GetRequest S (id' f) (chatcmpl f) (requestID f) = Inr request \<and> \<not> curl f \<and>
        Run E S f world = Returned world' request' \<longrightarrow>
        request' = annotate E f request)"
proof (intro conjI impI)
  assume "\<not> IsChat E request"
  then show "annotate E f request = request"
    by (simp add: annotate_def)
next
  assume "IsChat E request"
  then show "annotate E f request =
          request\<lparr>Category := (if goodCase f then ''goodcase''
                                else if badCase f then ''badcase'' else Category request),
                  Tags := (if tags f = [] then Tags request else tags f)\<rparr>"
    by (simp add: annotate_def)
next
  assume "IsChat E request \<and> \<not> goodCase f \<and> \<not> badCase f \<and> tags f = []"
  then show "annotate E f request = request"
    by (simp add: annotate_def)
next
  assume "GetRequest S (id' f) (chatcmpl f) (requestID f) = Inr request \<and> \<not> curl f \<and>
        Run E S f world = Returned world' request'"
  then show "request' = annotate E f request"
    by (auto simp: Run_def Let_def split: sum.splits prod.splits option.splits)
qed

text \<open>
  A record that is not a chat, a chat record whose category and tags are replaced, the
  same record without flags, and a run.
\<close>

theorem annotation_of_chat_records_witness:
  "\<not> IsChat exampleExternals modelsRequest
   \<and> annotate exampleExternals (parseFlags [ArgId 2, ArgGood True, ArgTag ''t'']) modelsRequest =
       modelsRequest
   \<and> IsChat exampleExternals taggedRequest
   \<and> annotate exampleExternals (parseFlags [ArgId 1, ArgBad True, ArgTag ''t1'', ArgTag ''t2''])
        taggedRequest =
       taggedRequest\<lparr>Category := ''badcase'', Tags := [''t1'', ''t2'']\<rparr>
   \<and> annotate exampleExternals (parseFlags [ArgId 1]) taggedRequest = taggedRequest
   \<and> Run exampleExternals exampleSystem (parseFlags [ArgId 1, ArgGood True, ArgTag ''t'']) emptyWorld =
       Returned (emptyWorld\<lparr>stdoutText := [dquote] @ ''goodcase'' @ [dquote] @ '' '' @ [dquote] @
                   ''t'' @ [dquote, LF]\<rparr>)
         (annotate exampleExternals (parseFlags [ArgId 1, ArgGood True, ArgTag ''t'']) exampleRequest)"
proof -
  have m: "\<not> IsChat exampleExternals modelsRequest"
    by (simp add: exampleExternals_def modelsRequest_def)
  have c: "IsChat exampleExternals taggedRequest"
    by (simp add: exampleExternals_def taggedRequest_def exampleRequest_def)
  have f1: "goodCase (parseFlags [ArgId 1, ArgBad True, ArgTag ''t1'', ArgTag ''t2'']) = False"
    "badCase (parseFlags [ArgId 1, ArgBad True, ArgTag ''t1'', ArgTag ''t2'']) = True"
    "tags (parseFlags [ArgId 1, ArgBad True, ArgTag ''t1'', ArgTag ''t2'']) = [''t1'', ''t2'']"
    by (simp_all add: parseFlags_def defaultFlags_def)
  have f2: "\<not> goodCase (parseFlags [ArgId 1])" "\<not> badCase (parseFlags [ArgId 1])"
    "tags (parseFlags [ArgId 1]) = []"
    by (simp_all add: parseFlags_def defaultFlags_def)
  have g: "GetRequest exampleSystem (id' (parseFlags [ArgId 1, ArgGood True, ArgTag ''t'']))
      (chatcmpl (parseFlags [ArgId 1, ArgGood True, ArgTag ''t'']))
      (requestID (parseFlags [ArgId 1, ArgGood True, ArgTag ''t''])) = Inr exampleRequest"
    "\<not> curl (parseFlags [ArgId 1, ArgGood True, ArgTag ''t''])"
    by (simp_all add: parseFlags_def defaultFlags_def exampleSystem_GetRequest)
  have r: "Run exampleExternals exampleSystem (parseFlags [ArgId 1, ArgGood True, ArgTag ''t''])
      emptyWorld =
      Returned (emptyWorld\<lparr>stdoutText := [dquote] @ ''goodcase'' @ [dquote] @ '' '' @ [dquote] @
                   ''t'' @ [dquote, LF]\<rparr>)
        (exampleRequest\<lparr>Category := ''goodcase'', Tags := [''t'']\<rparr>)"
    by code_simp
  let ?w = "emptyWorld\<lparr>stdoutText := [dquote] @ ''goodcase'' @ [dquote] @ '' '' @ [dquote] @
                   ''t'' @ [dquote, LF]\<rparr>"
  let ?r = "exampleRequest\<lparr>Category := ''goodcase'', Tags := [''t'']\<rparr>"
  note t1 = annotation_of_chat_records [where E = exampleExternals and request = modelsRequest
      and f = "parseFlags [ArgId 2, ArgGood True, ArgTag ''t'']" and S = exampleSystem
      and world = emptyWorld and world' = emptyWorld and request' = modelsRequest]
  note t2 = annotation_of_chat_records [where E = exampleExternals and request = taggedRequest
      and f = "parseFlags [ArgId 1, ArgBad True, ArgTag ''t1'', ArgTag ''t2'']"
      and S = exampleSystem and world = emptyWorld and world' = emptyWorld
      and request' = taggedRequest]
  note t3 = annotation_of_chat_records [where E = exampleExternals and request = taggedRequest
      and f = "parseFlags [ArgId 1]" and S = exampleSystem and world = emptyWorld
      and world' = emptyWorld and request' = taggedRequest]
  note t4 = annotation_of_chat_records [where E = exampleExternals and request = exampleRequest
      and f = "parseFlags [ArgId 1, ArgGood True, ArgTag ''t'']" and S = exampleSystem
      and world = emptyWorld and world' = ?w and request' = ?r]
  from t1 m have a1: "annotate exampleExternals (parseFlags [ArgId 2, ArgGood True, ArgTag ''t''])
      modelsRequest = modelsRequest"
    by blast
  from t2 c have "annotate exampleExternals
      (parseFlags [ArgId 1, ArgBad True, ArgTag ''t1'', ArgTag ''t2'']) taggedRequest =
      taggedRequest\<lparr>Category :=
          (if goodCase (parseFlags [ArgId 1, ArgBad True, ArgTag ''t1'', ArgTag ''t2''])
           then ''goodcase''
           else if badCase (parseFlags [ArgId 1, ArgBad True, ArgTag ''t1'', ArgTag ''t2''])
           then ''badcase'' else Category taggedRequest),
        Tags := (if tags (parseFlags [ArgId 1, ArgBad True, ArgTag ''t1'', ArgTag ''t2'']) = []
           then Tags taggedRequest
           else tags (parseFlags [ArgId 1, ArgBad True, ArgTag ''t1'', ArgTag ''t2'']))\<rparr>"
    by blast
  then have a2: "annotate exampleExternals
      (parseFlags [ArgId 1, ArgBad True, ArgTag ''t1'', ArgTag ''t2'']) taggedRequest =
      taggedRequest\<lparr>Category := ''badcase'', Tags := [''t1'', ''t2'']\<rparr>"
    by (simp add: f1)
  from t3 c f2 have a3: "annotate exampleExternals (parseFlags [ArgId 1]) taggedRequest = taggedRequest"
    by blast
  from t4 g r have a4: "exampleRequest\<lparr>Category := ''goodcase'', Tags := [''t'']\<rparr> =
      annotate exampleExternals (parseFlags [ArgId 1, ArgGood True, ArgTag ''t'']) exampleRequest"
    by blast
  from m a1 c a2 a3 r a4 show ?thesis
    by simp
qed

subsection \<open>C10: the curl mode returns before the annotation\<close>

text \<open>
  C10. With \<^verbatim>\<open>--curl\<close>, a run that finds its record writes the command to the
  standard output and returns (or ends with the error of the write): the flags
  \<^verbatim>\<open>--good\<close>, \<^verbatim>\<open>--bad\<close> and \<^verbatim>\<open>--tag\<close> have no part in it, and the record that the run
  leaves is the record that was found, category and tags included, chat or not.
\<close>

theorem curl_mode_skips_annotation:
  "curl f \<and> GetRequest S (id' f) (chatcmpl f) (requestID f) = Inr request \<longrightarrow>
     Run E S f world =
       (case writeCurlCommand E (WriteTo S Stdout) world request of
          (world', Some err) \<Rightarrow> Fatal err world'
        | (world', None) \<Rightarrow> Returned world' request)
     \<and> Run E S (f\<lparr>goodCase := good, badCase := bad, tags := ts\<rparr>) world = Run E S f world
     \<and> (Run E S f world = Returned world' request' \<longrightarrow>
          request' = request \<and> Category request' = Category request \<and>
          Tags request' = Tags request)"
  by (auto simp: Run_def split: prod.splits option.splits)

text \<open>The run of \<^verbatim>\<open>--id 1 --curl --good --tag t\<close> on a chat record.\<close>

theorem curl_mode_skips_annotation_witness:
  "curl (parseFlags [ArgId 1, ArgCurl True, ArgGood True, ArgTag ''t''])
   \<and> GetRequest exampleSystem (id' (parseFlags [ArgId 1, ArgCurl True, ArgGood True, ArgTag ''t'']))
        (chatcmpl (parseFlags [ArgId 1, ArgCurl True, ArgGood True, ArgTag ''t'']))
        (requestID (parseFlags [ArgId 1, ArgCurl True, ArgGood True, ArgTag ''t''])) =
       Inr exampleRequest
   \<and> IsChat exampleExternals exampleRequest
   \<and> Run exampleExternals exampleSystem
        (parseFlags [ArgId 1, ArgCurl True, ArgGood True, ArgTag ''t'']) emptyWorld =
       Returned (emptyWorld\<lparr>stdoutText :=
                   fst (writeCurlCommand exampleExternals bufferWriter [] exampleRequest)\<rparr>)
         exampleRequest
   \<and> Run exampleExternals exampleSystem
        (parseFlags [ArgId 1, ArgCurl True, ArgGood True, ArgTag ''t'']) emptyWorld =
       Run exampleExternals exampleSystem (parseFlags [ArgId 1, ArgCurl True]) emptyWorld"
proof -
  let ?f = "parseFlags [ArgId 1, ArgCurl True, ArgGood True, ArgTag ''t'']"
  have c: "curl ?f"
    by (simp add: parseFlags_def defaultFlags_def)
  have g: "GetRequest exampleSystem (id' ?f) (chatcmpl ?f) (requestID ?f) = Inr exampleRequest"
    by (simp add: parseFlags_def defaultFlags_def exampleSystem_GetRequest)
  have i: "IsChat exampleExternals exampleRequest"
    by (simp add: exampleExternals_def exampleRequest_def)
  have w: "writeCurlCommand exampleExternals (WriteTo exampleSystem Stdout) emptyWorld exampleRequest =
      (emptyWorld\<lparr>stdoutText :=
         fst (writeCurlCommand exampleExternals bufferWriter [] exampleRequest)\<rparr>, None)"
    by code_simp
  have u: "?f\<lparr>goodCase := False, badCase := False, tags := []\<rparr> = parseFlags [ArgId 1, ArgCurl True]"
    by (simp add: parseFlags_def defaultFlags_def)
  note t = curl_mode_skips_annotation [where f = ?f and S = exampleSystem
      and request = exampleRequest and E = exampleExternals and world = emptyWorld
      and good = False and bad = False and ts = "[]"
      and world' = "emptyWorld\<lparr>stdoutText :=
         fst (writeCurlCommand exampleExternals bufferWriter [] exampleRequest)\<rparr>"
      and request' = exampleRequest]
  from t c g have r: "Run exampleExternals exampleSystem ?f emptyWorld =
      (case writeCurlCommand exampleExternals (WriteTo exampleSystem Stdout) emptyWorld exampleRequest of
         (world', Some err) \<Rightarrow> Fatal err world'
       | (world', None) \<Rightarrow> Returned world' exampleRequest)"
    by blast
  from t c g have "Run exampleExternals exampleSystem
      (?f\<lparr>goodCase := False, badCase := False, tags := []\<rparr>) emptyWorld =
      Run exampleExternals exampleSystem ?f emptyWorld"
    by blast
  with u have e: "Run exampleExternals exampleSystem ?f emptyWorld =
      Run exampleExternals exampleSystem (parseFlags [ArgId 1, ArgCurl True]) emptyWorld"
    by simp
  from r have r': "Run exampleExternals exampleSystem ?f emptyWorld =
      Returned (emptyWorld\<lparr>stdoutText :=
                   fst (writeCurlCommand exampleExternals bufferWriter [] exampleRequest)\<rparr>)
        exampleRequest"
    by (simp add: w)
  from c g i r' e show ?thesis
    by blast
qed

end
